theory Spec2Isabelle
  imports Main "HOL-Library.Sublist"
begin

section \<open>JavaScript values\<close>

text \<open>
  Values that travel through the route handlers are JSON values. A property read
  \<open>obj.k\<close> is a lookup that yields \<open>None\<close> when the key is absent (JavaScript's
  \<open>undefined\<close>). Numbers are modelled as integers: the handlers only test them for
  truthiness and copy them.
\<close>

datatype json =
    JNull
  | JBool bool
  | JNum int
  | JStr string
  | JArr "json list"
  | JObj "(string \<times> json) list"

text \<open>JavaScript truthiness of a value read from a property (\<open>None\<close> is \<open>undefined\<close>).\<close>

fun truthy :: "json option \<Rightarrow> bool" where
  "truthy None = False"
| "truthy (Some JNull) = False"
| "truthy (Some (JBool b)) = b"
| "truthy (Some (JNum n)) = (n \<noteq> 0)"
| "truthy (Some (JStr s)) = (s \<noteq> [])"
| "truthy (Some (JArr xs)) = True"
| "truthy (Some (JObj kvs)) = True"

text \<open>\<open>a || d\<close> where \<open>d\<close> is a defined value: the left operand when it is truthy.\<close>

fun or_else :: "json option \<Rightarrow> json \<Rightarrow> json" where
  "or_else None d = d"
| "or_else (Some v) d = (if truthy (Some v) then v else d)"

text \<open>\<open>x?.k\<close>: the property \<open>k\<close> of \<open>x\<close>; \<open>undefined\<close> when \<open>x\<close> is nullish or has no such
  property (a primitive has none of the names used here).\<close>

fun opt_prop :: "json option \<Rightarrow> string \<Rightarrow> json option" where
  "opt_prop (Some (JObj kvs)) k = map_of kvs k"
| "opt_prop _ k = None"

text \<open>Decimal rendering of a non-negative integer inside a template literal.\<close>

definition digit_char :: "nat \<Rightarrow> char" where
  "digit_char d = char_of (48 + d)"

function string_of_nat :: "nat \<Rightarrow> string" where
  "string_of_nat n =
     (if n < 10 then [digit_char n]
      else string_of_nat (n div 10) @ [digit_char (n mod 10)])"
  by pat_completeness auto
termination
  by (relation "measure id") auto

declare string_of_nat.simps [simp del]

text \<open>What a \<open>catch\<close> clause receives: an \<open>Error\<close> instance with its message, or any
  other thrown value.\<close>

datatype js_thrown = ErrorObject string | OtherThrown

text \<open>\<open>error instanceof Error ? error.message : 'Unknown error'\<close>\<close>

fun errorMessage :: "js_thrown \<Rightarrow> string" where
  "errorMessage (ErrorObject m) = m"
| "errorMessage OtherThrown = ''Unknown error''"


section \<open>The turn endpoints: upstream events to server-sent event frames\<close>

text \<open>
  An upstream stream event is an object with a string discriminant \<open>type\<close> and further
  properties. \<open>ev_fields\<close> holds the properties other than \<open>type\<close>.
\<close>

record stream_event =
  ev_type :: string
  ev_fields :: "(string \<times> json) list"

text \<open>The event object itself, as it is handed to \<open>JSON.stringify\<close>.\<close>

definition eventData :: "stream_event \<Rightarrow> json" where
  "eventData e = JObj ((''type'', JStr (ev_type e)) # ev_fields e)"

definition ev_prop :: "stream_event \<Rightarrow> string \<Rightarrow> json option" where
  "ev_prop e k = map_of (ev_fields e) k"

text \<open>
  A chunk enqueued on the response stream. \<open>Data j\<close> is the text
  \<^verbatim>\<open>data: \<close> followed by \<open>JSON.stringify(j)\<close> and two newlines; \<open>Done\<close> is the literal text
  \<^verbatim>\<open>data: [DONE]\<close> followed by two newlines. The two never coincide: every \<open>j\<close> that is
  enqueued is an object, whose serialisation starts with a brace.
\<close>

datatype sse_chunk = Data json | Done

text \<open>\<^verbatim>\<open>data: ${JSON.stringify({ event: name, data: payload })}\n\n\<close>\<close>

definition sseEvent :: "string \<Rightarrow> json \<Rightarrow> sse_chunk" where
  "sseEvent name payload = Data (JObj [(''event'', JStr name), (''data'', payload)])"

text \<open>\<open>eventData.error?.message\<close>\<close>

definition error_message :: "stream_event \<Rightarrow> json option" where
  "error_message e = opt_prop (ev_prop e ''error'') ''message''"

text \<open>
  The body of the \<open>for await\<close> loop of the translating route: one event in, the chunk
  that is enqueued for it out. \<open>now\<close> is the reading of \<open>Date.now()\<close> in that iteration.
  The branches are those of the source, in its order.
\<close>

definition translate :: "nat \<Rightarrow> stream_event \<Rightarrow> sse_chunk" where
  "translate now e =
    (if ev_type e = ''response.output_item.added'' then
       sseEvent ''response.output_item.added'' (eventData e)
     else if ev_type e = ''response.output_item.done'' then
       sseEvent ''response.output_item.done'' (JObj [(''finish_reason'', JStr ''stop'')])
     else if ev_type e = ''response.content_part.added'' then
       sseEvent ''response.content_part.added'' (eventData e)
     else if ev_type e = ''response.content_part.done'' then
       sseEvent ''response.content_part.done'' (eventData e)
     else if prefix ''response.reasoning'' (ev_type e) then
       sseEvent (ev_type e) (eventData e)
     else if prefix ''response.function_call'' (ev_type e) then
       sseEvent ''response.tool_calls.delta'' (JObj [(''tool_calls'', eventData e)])
     else if ev_type e = ''response.completed'' then
       sseEvent ''response.completed''
         (JObj [(''usage'', or_else (ev_prop e ''usage'') (JObj []))])
     else if ev_type e = ''response.failed'' then
       sseEvent ''error''
         (JObj [(''error'', JStr ''Response failed''),
                (''details'', or_else (error_message e) (JStr ''Unknown error''))])
     else if truthy (ev_prop e ''delta'') \<or> truthy (ev_prop e ''text'') then
       sseEvent ''response.output_text.delta''
         (JObj [(''delta'',
                   or_else (ev_prop e ''delta'') (or_else (ev_prop e ''text'') (JStr [])))
               , (''item_id'', JStr (''msg_'' @ string_of_nat now))])
     else
       sseEvent (ev_type e) (eventData e))"

text \<open>The discriminants the chain above tests for: six names and two prefixes.\<close>

definition recognized :: "string \<Rightarrow> bool" where
  "recognized t \<longleftrightarrow>
     t = ''response.output_item.added'' \<or> t = ''response.output_item.done'' \<or>
     t = ''response.content_part.added'' \<or> t = ''response.content_part.done'' \<or>
     prefix ''response.reasoning'' t \<or> prefix ''response.function_call'' t \<or>
     t = ''response.completed'' \<or> t = ''response.failed''"

text \<open>
  What the upstream does during one request. Everything before the response stream
  exists (reading the request body, validating the tools, opening the upstream stream)
  either succeeds or throws; once it is open, the upstream yields finitely many events
  and then ends normally (\<open>thrown = None\<close>) or throws from the iterator.
\<close>

record upstream_run =
  yielded :: "stream_event list"
  thrown :: "js_thrown option"

datatype turn_env = SetupThrows js_thrown | Streams upstream_run

datatype stream_end = Closed | Errored js_thrown

text \<open>A response: an event stream with its status, chunks and the way it ended, or a
  JSON document with its status.\<close>

datatype response =
    EventStream nat "sse_chunk list" stream_end
  | JsonResponse nat json

text \<open>The \<open>for await\<close> loop; \<open>clock i\<close> is the reading of \<open>Date.now()\<close> while event number
  \<open>i\<close> is handled.\<close>

fun pump :: "(nat \<Rightarrow> nat) \<Rightarrow> nat \<Rightarrow> stream_event list \<Rightarrow> sse_chunk list" where
  "pump clock i [] = []"
| "pump clock i (e # es) = translate (clock i) e # pump clock (Suc i) es"

text \<open>\<open>start(controller)\<close> of the translating route: the chunks enqueued before
  \<open>controller.close()\<close>.\<close>

definition start_translating :: "(nat \<Rightarrow> nat) \<Rightarrow> upstream_run \<Rightarrow> sse_chunk list" where
  "start_translating clock run =
     pump clock 0 (yielded run) @
     (case thrown run of
        None \<Rightarrow> [Done]
      | Some err \<Rightarrow>
          [sseEvent ''error''
             (JObj [(''error'', JStr ''Streaming failed''),
                    (''details'', JStr (errorMessage err))])])"

text \<open>\<open>POST\<close> of the translating route (the two copies of it in the repository have the
  same streaming code).\<close>

definition POST_translating :: "(nat \<Rightarrow> nat) \<Rightarrow> turn_env \<Rightarrow> response" where
  "POST_translating clock env =
     (case env of
        Streams run \<Rightarrow> EventStream 200 (start_translating clock run) Closed
      | SetupThrows err \<Rightarrow>
          EventStream 500
            [sseEvent ''error''
               (JObj [(''error'', JStr ''Internal server error''),
                      (''details'', JStr (errorMessage err))]),
             Done]
            Closed)"

text \<open>\<open>POST\<close> of the pass-through route: every event is sent as it is; the stream is
  closed after the last one, or put into the errored state when the iterator throws.\<close>

definition start_passthrough :: "upstream_run \<Rightarrow> sse_chunk list \<times> stream_end" where
  "start_passthrough run =
     (map (\<lambda>e. Data (JObj [(''event'', JStr (ev_type e)), (''data'', eventData e)]))
        (yielded run),
      (case thrown run of None \<Rightarrow> Closed | Some err \<Rightarrow> Errored err))"

definition POST_passthrough :: "turn_env \<Rightarrow> response" where
  "POST_passthrough env =
     (case env of
        Streams run \<Rightarrow>
          (case start_passthrough run of (chunks, ending) \<Rightarrow> EventStream 200 chunks ending)
      | SetupThrows err \<Rightarrow>
          JsonResponse 500 (JObj [(''error'', JStr (errorMessage err))]))"

definition body :: "response \<Rightarrow> sse_chunk list" where
  "body r = (case r of EventStream _ chunks _ \<Rightarrow> chunks | JsonResponse _ _ \<Rightarrow> [])"


section \<open>Strings\<close>

text \<open>
  A string that the code trims or splits is modelled as the sequence of its UTF-16 code
  units, each an integer (from 0 to 65535 for a string of the program; the functions do
  not depend on the bounds). \<open>utf16\<close> gives the code units of a string written with
  characters below 256. Strings that are only copied or compared are of type \<open>string\<close>.

  \<open>is_space\<close> holds of the code units that \<open>String.prototype.trim\<close> removes: the white
  space and line terminator code points of the language, which are TAB, LF, VT, FF, CR,
  SPACE, NO-BREAK SPACE, OGHAM SPACE MARK, EN QUAD to HAIR SPACE, LINE SEPARATOR,
  PARAGRAPH SEPARATOR, NARROW NO-BREAK SPACE, MEDIUM MATHEMATICAL SPACE, IDEOGRAPHIC
  SPACE and ZERO WIDTH NO-BREAK SPACE, all of one code unit. \<open>trim\<close> removes them from
  both ends; \<open>split_comma s\<close> is \<open>s.split(",")\<close>.
\<close>

definition utf16 :: "string \<Rightarrow> int list" where
  "utf16 s = map of_char s"

definition is_space :: "int \<Rightarrow> bool" where
  "is_space u \<longleftrightarrow>
     u \<in> set [0x0009, 0x000A, 0x000B, 0x000C, 0x000D, 0x0020, 0x00A0, 0x1680,
              0x2000, 0x2001, 0x2002, 0x2003, 0x2004, 0x2005, 0x2006, 0x2007,
              0x2008, 0x2009, 0x200A, 0x2028, 0x2029, 0x202F, 0x205F, 0x3000, 0xFEFF]"

definition comma :: int where
  "comma = 0x002C"

definition trim :: "int list \<Rightarrow> int list" where
  "trim s = rev (dropWhile is_space (rev (dropWhile is_space s)))"

fun split_comma :: "int list \<Rightarrow> int list list" where
  "split_comma [] = [[]]"
| "split_comma (c # cs) =
     (if c = comma then [] # split_comma cs
      else (case split_comma cs of
              w # ws \<Rightarrow> (c # w) # ws
            | [] \<Rightarrow> [[c]]))"

text \<open>\<open>s.split(",").map((t) => t.trim()).filter((t) => t)\<close>\<close>

definition split_tools :: "int list \<Rightarrow> int list list" where
  "split_tools s = filter (\<lambda>t. t \<noteq> []) (map trim (split_comma s))"

text \<open>Truthiness of an optional string property: defined and not empty.\<close>

fun present :: "string option \<Rightarrow> bool" where
  "present None = False"
| "present (Some s) = (s \<noteq> [])"


section \<open>Server configuration\<close>

text \<open>
  An optional property of an object is an \<open>option\<close>; \<open>None\<close> stands for a property that
  is absent or holds \<open>undefined\<close> (reading the property gives \<open>undefined\<close> in both
  cases). An object used as a dictionary from names to strings is a map.
\<close>

datatype McpServerType = docker | query_api | remote_pipedream

record McpAuthConfig =
  github_token :: "string option"
  github_toolsets :: "string option"
  github_read_only :: "bool option"
  query_api_key :: "string option"
  supabase_url :: "string option"
  supabase_anon_key :: "string option"
  supabase_service_role_key :: "string option"
  pipedream_api_key :: "string option"
  custom_headers :: "(string \<rightharpoonup> string) option"

record McpServerConfig =
  srv_id :: string
  srv_name :: "int list"
  srv_description :: string
  srv_type :: McpServerType
  srv_server_url :: "string option"
  srv_docker_image :: "string option"
  srv_app_slug :: "string option"
  srv_enabled :: bool
  srv_skip_approval :: bool
  srv_allowed_tools :: "int list"
  srv_auth_config :: McpAuthConfig
  srv_required_env_vars :: "string list"
  srv_optional_env_vars :: "string list"

definition getEnabledServers :: "McpServerConfig list \<Rightarrow> McpServerConfig list" where
  "getEnabledServers servers = filter srv_enabled servers"

record validation =
  valid :: bool
  errors :: "string list"

text \<open>The body of the \<open>forEach\<close> over \<open>required_env_vars\<close>: the errors pushed for one
  variable name.\<close>

definition env_var_errors :: "McpServerConfig \<Rightarrow> string \<Rightarrow> string list" where
  "env_var_errors server envVar =
     (if srv_type server = docker \<and> envVar = ''GITHUB_PERSONAL_ACCESS_TOKEN''
         \<and> \<not> present (github_token (srv_auth_config server))
      then [envVar @ '' is required for GitHub server''] else []) @
     (if srv_type server = query_api \<and> envVar = ''QUERY_API_KEY''
         \<and> \<not> present (query_api_key (srv_auth_config server))
      then [envVar @ '' is required for Supabase server''] else [])"

definition validateServerConfig :: "McpServerConfig \<Rightarrow> validation" where
  "validateServerConfig server =
     (let errs =
        (if trim (srv_name server) = [] then [''Server name is required''] else []) @
        (if srv_type server = docker \<and> \<not> present (srv_docker_image server)
         then [''Docker image is required for Docker-based servers''] else []) @
        (if srv_type server = query_api \<and> \<not> present (srv_server_url server)
         then [''Server URL is required for query API servers''] else []) @
        (if srv_type server = remote_pipedream then
           (if \<not> present (srv_server_url server)
            then [''Server URL is required for Pipedream servers''] else []) @
           (if \<not> present (srv_app_slug server)
            then [''App slug is required for Pipedream servers''] else [])
         else []) @
        concat (map (env_var_errors server) (srv_required_env_vars server))
      in \<lparr> valid = (length errs = 0), errors = errs \<rparr>)"


section \<open>The tools store\<close>

record VectorStore =
  vs_id :: string
  vs_name :: string

text \<open>The \<open>user_location\<close> of the web search configuration; its \<open>type\<close> is always
  \<open>"approximate"\<close>.\<close>

record user_location =
  country :: "string option"
  city :: "string option"
  region :: "string option"

record WebSearchConfig =
  ws_user_location :: "user_location option"

record McpConfig =
  cfg_server_label :: "int list"
  cfg_server_url :: string
  cfg_allowed_tools :: "int list"
  cfg_skip_approval :: bool

record StoreState =
  fileSearchEnabled :: bool
  webSearchEnabled :: bool
  functionsEnabled :: bool
  codeInterpreterEnabled :: bool
  vectorStore :: "VectorStore option"
  webSearchConfig :: WebSearchConfig
  mcpEnabled :: bool
  mcpConfig :: McpConfig
  mcpServers :: "McpServerConfig list"

text \<open>
  \<open>Partial<McpServerConfig>\<close>: for every property, \<open>None\<close> when the update object does
  not have it. An optional property can be present and hold \<open>undefined\<close>
  (\<open>Some None\<close>), which the spread copies.
\<close>

record ServerUpdates =
  upd_id :: "string option"
  upd_name :: "int list option"
  upd_description :: "string option"
  upd_type :: "McpServerType option"
  upd_server_url :: "string option option"
  upd_docker_image :: "string option option"
  upd_app_slug :: "string option option"
  upd_enabled :: "bool option"
  upd_skip_approval :: "bool option"
  upd_allowed_tools :: "int list option"
  upd_auth_config :: "McpAuthConfig option"
  upd_required_env_vars :: "string list option"
  upd_optional_env_vars :: "string list option"

text \<open>One property of \<open>{ ...server, ...updates }\<close>.\<close>

fun override :: "'a \<Rightarrow> 'a option \<Rightarrow> 'a" where
  "override old None = old"
| "override old (Some new) = new"

text \<open>\<open>{ ...server, ...updates }\<close>\<close>

definition spread :: "McpServerConfig \<Rightarrow> ServerUpdates \<Rightarrow> McpServerConfig" where
  "spread server updates =
     \<lparr> srv_id = override (srv_id server) (upd_id updates),
       srv_name = override (srv_name server) (upd_name updates),
       srv_description = override (srv_description server) (upd_description updates),
       srv_type = override (srv_type server) (upd_type updates),
       srv_server_url = override (srv_server_url server) (upd_server_url updates),
       srv_docker_image = override (srv_docker_image server) (upd_docker_image updates),
       srv_app_slug = override (srv_app_slug server) (upd_app_slug updates),
       srv_enabled = override (srv_enabled server) (upd_enabled updates),
       srv_skip_approval = override (srv_skip_approval server) (upd_skip_approval updates),
       srv_allowed_tools = override (srv_allowed_tools server) (upd_allowed_tools updates),
       srv_auth_config = override (srv_auth_config server) (upd_auth_config updates),
       srv_required_env_vars =
         override (srv_required_env_vars server) (upd_required_env_vars updates),
       srv_optional_env_vars =
         override (srv_optional_env_vars server) (upd_optional_env_vars updates) \<rparr>"

definition updateMcpServer :: "string \<Rightarrow> ServerUpdates \<Rightarrow> StoreState \<Rightarrow> StoreState" where
  "updateMcpServer serverId updates state =
     state \<lparr> mcpServers :=
       map (\<lambda>server. if srv_id server = serverId then spread server updates else server)
         (mcpServers state) \<rparr>"

definition toggleMcpServer :: "string \<Rightarrow> StoreState \<Rightarrow> StoreState" where
  "toggleMcpServer serverId state =
     state \<lparr> mcpServers :=
       map (\<lambda>server. if srv_id server = serverId
                      then server \<lparr> srv_enabled := \<not> srv_enabled server \<rparr> else server)
         (mcpServers state) \<rparr>"


section \<open>The tool catalogue\<close>

text \<open>An entry of the imported \<open>toolsList\<close>: a locally implemented function with the
  schema of its parameters, in the order of the object's keys.\<close>

record ToolSpec =
  ts_name :: string
  ts_description :: string
  ts_parameters :: "(string \<times> json) list"

record FunctionTool =
  fn_name :: string
  fn_description :: string
  fn_properties :: "(string \<times> json) list"
  fn_required :: "string list"
  fn_additionalProperties :: bool
  fn_strict :: bool

text \<open>The object built for a remote protocol server; every property but the label is
  set on some paths only.\<close>

record McpTool =
  tool_server_label :: "int list"
  tool_server_url :: "string option"
  tool_docker_image :: "string option"
  tool_env :: "(string \<rightharpoonup> string) option"
  tool_headers :: "(string \<rightharpoonup> string) option"
  tool_require_approval :: "string option"
  tool_allowed_tools :: "int list list option"

text \<open>A tool descriptor, by its \<open>type\<close> property. The code interpreter descriptor always
  carries \<open>container: { type: "auto" }\<close>.\<close>

datatype tool =
    Web_search "user_location option"
  | File_search "string list"
  | Code_interpreter
  | Function FunctionTool
  | Mcp McpTool

datatype console_arg =
    Text string
  | Ids "string list"
  | Tools "tool list"
  | Count nat

datatype console_entry = ConsoleLog "console_arg list" | ConsoleWarn "console_arg list"

text \<open>The ambient state \<open>getTools\<close> runs in: the store it reads with \<open>getState()\<close> and
  the console it writes to.\<close>

record world =
  store :: StoreState
  console :: "console_entry list"

definition webSearchTools :: "StoreState \<Rightarrow> tool list" where
  "webSearchTools st =
     (if webSearchEnabled st then
        [Web_search
           (case ws_user_location (webSearchConfig st) of
              None \<Rightarrow> None
            | Some loc \<Rightarrow>
                (if country loc \<noteq> Some [] \<or> region loc \<noteq> Some [] \<or> city loc \<noteq> Some []
                 then Some loc else None))]
      else [])"

definition validVectorStoreIds :: "StoreState \<Rightarrow> string list" where
  "validVectorStoreIds st =
     (case vectorStore st of
        None \<Rightarrow> []
      | Some vs \<Rightarrow> (if vs_id vs \<noteq> [] then [vs_id vs] else []))"

definition fileSearchTools :: "StoreState \<Rightarrow> tool list \<times> console_entry list" where
  "fileSearchTools st =
     (if fileSearchEnabled st then
        (if length (validVectorStoreIds st) > 0 then
           ([File_search (validVectorStoreIds st)],
            [ConsoleLog [Text ''Added file search tool with vector store IDs:'',
                         Ids (validVectorStoreIds st)]])
         else
           ([],
            [ConsoleWarn [Text
              ''File search enabled but no valid vector store IDs found. Skipping file search tool.'']]))
      else ([], []))"

definition codeInterpreterTools :: "StoreState \<Rightarrow> tool list" where
  "codeInterpreterTools st = (if codeInterpreterEnabled st then [Code_interpreter] else [])"

definition functionTools :: "ToolSpec list \<Rightarrow> StoreState \<Rightarrow> tool list" where
  "functionTools toolsList st =
     (if functionsEnabled st then
        map (\<lambda>t. Function
                   \<lparr> fn_name = ts_name t,
                     fn_description = ts_description t,
                     fn_properties = ts_parameters t,
                     fn_required = map fst (ts_parameters t),
                     fn_additionalProperties = False,
                     fn_strict = True \<rparr>)
          toolsList
      else [])"

text \<open>The settings common to the legacy server and the configured servers.\<close>

definition require_approval_of :: "bool \<Rightarrow> string option" where
  "require_approval_of skip = (if skip then Some ''never'' else None)"

definition allowed_tools_of :: "int list \<Rightarrow> int list list option" where
  "allowed_tools_of s = (if trim s \<noteq> [] then Some (split_tools s) else None)"

definition legacyMcpTools :: "StoreState \<Rightarrow> tool list" where
  "legacyMcpTools st =
     (if mcpEnabled st \<and> cfg_server_url (mcpConfig st) \<noteq> []
         \<and> cfg_server_label (mcpConfig st) \<noteq> [] then
        [Mcp \<lparr> tool_server_label = cfg_server_label (mcpConfig st),
               tool_server_url = Some (cfg_server_url (mcpConfig st)),
               tool_docker_image = None,
               tool_env = None,
               tool_headers = None,
               tool_require_approval = require_approval_of (cfg_skip_approval (mcpConfig st)),
               tool_allowed_tools = allowed_tools_of (cfg_allowed_tools (mcpConfig st)) \<rparr>]
      else [])"

text \<open>\<open>...(v && { k: v })\<close>: the entry when \<open>v\<close> is a non-empty string, nothing otherwise.\<close>

definition entry_if :: "string \<Rightarrow> string option \<Rightarrow> (string \<rightharpoonup> string)" where
  "entry_if k v = (case v of Some s \<Rightarrow> (if s \<noteq> [] then [k \<mapsto> s] else Map.empty) | None \<Rightarrow> Map.empty)"

definition docker_env :: "McpAuthConfig \<Rightarrow> (string \<rightharpoonup> string) option" where
  "docker_env auth =
     (case github_token auth of
        None \<Rightarrow> None
      | Some token \<Rightarrow>
          (if token \<noteq> [] then
             Some ([''GITHUB_PERSONAL_ACCESS_TOKEN'' \<mapsto> token]
                   ++ entry_if ''GITHUB_TOOLSETS'' (github_toolsets auth)
                   ++ (case github_read_only auth of
                         None \<Rightarrow> Map.empty
                       | Some b \<Rightarrow> [''GITHUB_READ_ONLY'' \<mapsto> (if b then ''true'' else ''false'')]))
           else None))"

definition query_api_env :: "McpAuthConfig \<Rightarrow> (string \<rightharpoonup> string) option" where
  "query_api_env auth =
     (case query_api_key auth of
        None \<Rightarrow> None
      | Some key \<Rightarrow>
          (if key \<noteq> [] then
             Some ([''QUERY_API_KEY'' \<mapsto> key]
                   ++ entry_if ''SUPABASE_URL'' (supabase_url auth)
                   ++ entry_if ''SUPABASE_ANON_KEY'' (supabase_anon_key auth)
                   ++ entry_if ''SUPABASE_SERVICE_ROLE_KEY'' (supabase_service_role_key auth))
           else None))"

definition pipedream_headers :: "McpServerConfig \<Rightarrow> (string \<rightharpoonup> string)" where
  "pipedream_headers server =
     (case srv_app_slug server of None \<Rightarrow> Map.empty | Some slug \<Rightarrow> [''X-App-Slug'' \<mapsto> slug])
     ++ (case pipedream_api_key (srv_auth_config server) of
           None \<Rightarrow> Map.empty
         | Some key \<Rightarrow> (if key \<noteq> [] then [''Authorization'' \<mapsto> ''Bearer '' @ key] else Map.empty))
     ++ (case custom_headers (srv_auth_config server) of None \<Rightarrow> Map.empty | Some h \<Rightarrow> h)"

text \<open>The body of the \<open>forEach\<close> over the enabled servers: the descriptor pushed for one
  server.\<close>

definition serverMcpTool :: "McpServerConfig \<Rightarrow> McpTool" where
  "serverMcpTool server =
     (let mcpTool = \<lparr> tool_server_label = srv_name server,
                       tool_server_url = None,
                       tool_docker_image = None,
                       tool_env = None,
                       tool_headers = None,
                       tool_require_approval = None,
                       tool_allowed_tools = None \<rparr>;
          mcpTool =
            (case srv_type server of
               docker \<Rightarrow>
                 mcpTool \<lparr> tool_docker_image := srv_docker_image server,
                           tool_env := docker_env (srv_auth_config server) \<rparr>
             | query_api \<Rightarrow>
                 mcpTool \<lparr> tool_server_url := srv_server_url server,
                           tool_env := query_api_env (srv_auth_config server) \<rparr>
             | remote_pipedream \<Rightarrow>
                 mcpTool \<lparr> tool_server_url := srv_server_url server,
                           tool_headers := Some (pipedream_headers server) \<rparr>)
      in mcpTool \<lparr> tool_require_approval := require_approval_of (srv_skip_approval server),
                   tool_allowed_tools := allowed_tools_of (srv_allowed_tools server) \<rparr>)"

definition serverMcpTools :: "StoreState \<Rightarrow> tool list" where
  "serverMcpTools st = map (\<lambda>server. Mcp (serverMcpTool server)) (getEnabledServers (mcpServers st))"

text \<open>\<open>getTools\<close>: the list it returns and the world it leaves behind.\<close>

definition getTools :: "ToolSpec list \<Rightarrow> world \<Rightarrow> tool list \<times> world" where
  "getTools toolsList w =
     (let st = store w;
          tools = webSearchTools st
                  @ fst (fileSearchTools st)
                  @ codeInterpreterTools st
                  @ functionTools toolsList st
                  @ legacyMcpTools st
                  @ serverMcpTools st
      in (tools,
          w \<lparr> console := console w
                 @ snd (fileSearchTools st)
                 @ [ConsoleLog [Text ''Generated tools:'', Tools tools],
                    ConsoleLog [Text ''Total tools count:'', Count (length tools)]] \<rparr>))"

text \<open>The \<open>type\<close> property of a descriptor.\<close>

fun tool_type :: "tool \<Rightarrow> string" where
  "tool_type (Web_search _) = ''web_search''"
| "tool_type (File_search _) = ''file_search''"
| "tool_type Code_interpreter = ''code_interpreter''"
| "tool_type (Function _) = ''function''"
| "tool_type (Mcp _) = ''mcp''"


text \<open>The properties \<open>allowed_tools\<close> and \<open>require_approval\<close> of a descriptor; only a
  remote protocol descriptor can have them.\<close>

fun allowed_tools_field :: "tool \<Rightarrow> int list list option" where
  "allowed_tools_field (Mcp d) = tool_allowed_tools d"
| "allowed_tools_field _ = None"

fun require_approval_field :: "tool \<Rightarrow> string option" where
  "require_approval_field (Mcp d) = tool_require_approval d"
| "require_approval_field _ = None"

text \<open>The descriptors of type \<open>file_search\<close>.\<close>

definition is_file_search :: "tool \<Rightarrow> bool" where
  "is_file_search t \<longleftrightarrow> tool_type t = ''file_search''"


section \<open>Approval requests\<close>

text \<open>
  The approval component keeps one flag. A button that is rendered with
  \<open>disabled = true\<close> does not run its click handler; \<open>handle\<close> sets the flag and calls
  the \<open>onRespond\<close> property.
\<close>

record McpApprovalRequestItem =
  item_id :: string
  item_name :: string
  item_server_label :: string

datatype respond_call = onRespond bool string

record McpApproval =
  disabled :: bool

definition handle :: "McpApprovalRequestItem \<Rightarrow> bool \<Rightarrow> McpApproval \<Rightarrow> McpApproval \<times> respond_call list" where
  "handle item approve c = (c \<lparr> disabled := True \<rparr>, [onRespond approve (item_id item)])"

definition click :: "McpApprovalRequestItem \<Rightarrow> bool \<Rightarrow> McpApproval \<Rightarrow> McpApproval \<times> respond_call list" where
  "click item approve c = (if disabled c then (c, []) else handle item approve c)"

text \<open>
  Modelled from the spec: the approval gate that stands behind \<open>onRespond\<close>
  (\<open>resolveApproval\<close>, sections 4.4 and 6.3) is not among the sources; only the component
  that calls it is. The gate holds the approval requests keyed by call id. A request is
  \<open>pending\<close> until it is resolved; resolving a pending request moves it to \<open>approved\<close>
  or \<open>declined\<close> and returns it for dispatch; a decision on a request that is already
  resolved is a no-op reported as a warning; a decision for an unknown call id is a
  no-op.
\<close>

datatype decision = pending | approved | declined

record ApprovalRequest =
  req_call_id :: string
  req_server_label :: string
  req_tool_name :: string
  req_arguments :: json
  req_decision :: decision

datatype resolution = Dispatch ApprovalRequest | DuplicateWarning | UnknownCall

text \<open>Modelled from the spec: \<open>resolveApproval(callId, approved)\<close>, which is not among
  the sources. It returns the gate after the call and what the call led to.\<close>

definition resolveApproval ::
  "string \<Rightarrow> bool \<Rightarrow> (string \<rightharpoonup> ApprovalRequest) \<Rightarrow> (string \<rightharpoonup> ApprovalRequest) \<times> resolution" where
  "resolveApproval callId approve gate =
     (case gate callId of
        None \<Rightarrow> (gate, UnknownCall)
      | Some request \<Rightarrow>
          (if req_decision request = pending then
             (let resolved = request \<lparr> req_decision := (if approve then approved else declined) \<rparr>
              in (gate(callId \<mapsto> resolved), Dispatch resolved))
           else (gate, DuplicateWarning)))"

fun is_dispatch :: "resolution \<Rightarrow> bool" where
  "is_dispatch (Dispatch _) = True"
| "is_dispatch _ = False"

text \<open>The calls the component makes, handed to the gate one after the other.\<close>

fun deliver ::
  "respond_call list \<Rightarrow> (string \<rightharpoonup> ApprovalRequest) \<Rightarrow> (string \<rightharpoonup> ApprovalRequest) \<times> resolution list" where
  "deliver [] gate = (gate, [])"
| "deliver (onRespond approve callId # calls) gate =
     (case resolveApproval callId approve gate of
        (gate', r) \<Rightarrow> (case deliver calls gate' of (gate'', rs) \<Rightarrow> (gate'', r # rs)))"


section \<open>The specification's wording, for comparison\<close>

text \<open>
  The auth value that corresponds to an environment variable name, as the catalogue
  builder pairs them when it fills \<open>env\<close> and \<open>headers\<close>; a name outside this table has
  no corresponding value.
\<close>

definition has_auth_value :: "McpAuthConfig \<Rightarrow> string \<Rightarrow> bool" where
  "has_auth_value auth envVar =
     (if envVar = ''GITHUB_PERSONAL_ACCESS_TOKEN'' then present (github_token auth)
      else if envVar = ''GITHUB_TOOLSETS'' then present (github_toolsets auth)
      else if envVar = ''GITHUB_READ_ONLY'' then github_read_only auth \<noteq> None
      else if envVar = ''QUERY_API_KEY'' then present (query_api_key auth)
      else if envVar = ''SUPABASE_URL'' then present (supabase_url auth)
      else if envVar = ''SUPABASE_ANON_KEY'' then present (supabase_anon_key auth)
      else if envVar = ''SUPABASE_SERVICE_ROLE_KEY'' then present (supabase_service_role_key auth)
      else if envVar = ''PIPEDREAM_API_KEY'' then present (pipedream_api_key auth)
      else False)"

text \<open>The conditions under which the specification says a server configuration has
  errors.\<close>

definition spec_has_errors :: "McpServerConfig \<Rightarrow> bool" where
  "spec_has_errors server \<longleftrightarrow>
     trim (srv_name server) = [] \<or>
     (srv_type server = docker \<and> \<not> present (srv_docker_image server)) \<or>
     (srv_type server = query_api \<and> \<not> present (srv_server_url server)) \<or>
     (srv_type server = remote_pipedream \<and>
        (\<not> present (srv_server_url server) \<or> \<not> present (srv_app_slug server))) \<or>
     list_ex (\<lambda>envVar. \<not> has_auth_value (srv_auth_config server) envVar)
       (srv_required_env_vars server)"

text \<open>What the specification says of the descriptor \<open>d\<close> of a configured server \<open>s\<close>:
  it is labelled with the server's name and carries the connection fields of the
  server's type, and no others: a docker server its image, with an environment holding
  the GitHub token when one is set; a query API server its URL; a Pipedream server its
  URL and headers that name the app.\<close>

definition describes :: "McpServerConfig \<Rightarrow> McpTool \<Rightarrow> bool" where
  "describes s d \<longleftrightarrow>
     tool_server_label d = srv_name s \<and>
     (case srv_type s of
        docker \<Rightarrow>
          tool_docker_image d = srv_docker_image s
          \<and> tool_server_url d = None \<and> tool_headers d = None
          \<and> (case github_token (srv_auth_config s) of
                None \<Rightarrow> tool_env d = None
              | Some token \<Rightarrow>
                  (if token = [] then tool_env d = None
                   else (case tool_env d of
                           None \<Rightarrow> False
                         | Some env \<Rightarrow> env ''GITHUB_PERSONAL_ACCESS_TOKEN'' = Some token)))
      | query_api \<Rightarrow>
          tool_server_url d = srv_server_url s
          \<and> tool_docker_image d = None \<and> tool_headers d = None
      | remote_pipedream \<Rightarrow>
          tool_server_url d = srv_server_url s
          \<and> tool_docker_image d = None \<and> tool_env d = None
          \<and> (case tool_headers d of
                None \<Rightarrow> False
              | Some h \<Rightarrow>
                  h ''X-App-Slug'' =
                    (case custom_headers (srv_auth_config s) of
                       None \<Rightarrow> srv_app_slug s
                     | Some custom \<Rightarrow>
                         (case custom ''X-App-Slug'' of
                            None \<Rightarrow> srv_app_slug s
                          | Some v \<Rightarrow> Some v))))"

text \<open>\<open>names.join(",")\<close>: the string a list of tool names stands for when it is written
  into the configuration.\<close>

fun join_comma :: "int list list \<Rightarrow> int list" where
  "join_comma [] = []"
| "join_comma [n] = n"
| "join_comma (n # ns) = n @ comma # join_comma ns"

text \<open>A tool name as it is meant to be listed: not empty, without a comma, and without
  white space at either end.\<close>

definition tool_name :: "int list \<Rightarrow> bool" where
  "tool_name n \<longleftrightarrow> n \<noteq> [] \<and> comma \<notin> set n \<and> \<not> is_space (hd n) \<and> \<not> is_space (last n)"


section \<open>Example inputs\<close>

text \<open>A clock that always reads the same instant.\<close>

definition steady_clock :: "nat \<Rightarrow> nat" where
  "steady_clock i = 42"

definition refusal_delta :: stream_event where
  "refusal_delta = \<lparr> ev_type = ''response.refusal.delta'', ev_fields = [(''delta'', JStr ''I cannot'')] \<rparr>"

definition keepalive :: stream_event where
  "keepalive = \<lparr> ev_type = ''response.in_progress'', ev_fields = [(''sequence_number'', JNum 1)] \<rparr>"

definition broken_run :: upstream_run where
  "broken_run = \<lparr> yielded = [keepalive], thrown = Some (ErrorObject ''socket hang up'') \<rparr>"

definition quiet_run :: upstream_run where
  "quiet_run = \<lparr> yielded = [keepalive], thrown = None \<rparr>"

definition failed_with_message :: stream_event where
  "failed_with_message =
     \<lparr> ev_type = ''response.failed'',
       ev_fields = [(''error'', JObj [(''code'', JStr ''server_error''),
                                      (''message'', JStr ''The model is overloaded'')])] \<rparr>"

definition failed_without_message :: stream_event where
  "failed_without_message = \<lparr> ev_type = ''response.failed'', ev_fields = [(''error'', JNull)] \<rparr>"

definition two_failures :: upstream_run where
  "two_failures = \<lparr> yielded = [failed_with_message, failed_without_message], thrown = None \<rparr>"

definition github_server :: McpServerConfig where
  "github_server =
     \<lparr> srv_id = ''github-official'', srv_name = utf16 ''GitHub Official'',
       srv_description = ''Official GitHub MCP server'',
       srv_type = docker, srv_server_url = None,
       srv_docker_image = Some ''ghcr.io/github/github-mcp-server'', srv_app_slug = None,
       srv_enabled = True, srv_skip_approval = False, srv_allowed_tools = [],
       srv_auth_config =
         \<lparr> github_token = Some ''ghp_x'', github_toolsets = Some [], github_read_only = Some False,
           query_api_key = None, supabase_url = None, supabase_anon_key = None,
           supabase_service_role_key = None, pipedream_api_key = None, custom_headers = None \<rparr>,
       srv_required_env_vars = [''GITHUB_PERSONAL_ACCESS_TOKEN''],
       srv_optional_env_vars = [''GITHUB_TOOLSETS'', ''GITHUB_READ_ONLY''] \<rparr>"

definition supabase_server :: McpServerConfig where
  "supabase_server =
     \<lparr> srv_id = ''supabase'', srv_name = utf16 ''Supabase'',
       srv_description = ''Query and manage Supabase databases'',
       srv_type = query_api, srv_server_url = Some ''supabase-mcp-server'',
       srv_docker_image = None, srv_app_slug = None,
       srv_enabled = False, srv_skip_approval = False, srv_allowed_tools = [],
       srv_auth_config =
         \<lparr> github_token = None, github_toolsets = None, github_read_only = None,
           query_api_key = Some [], supabase_url = Some [], supabase_anon_key = Some [],
           supabase_service_role_key = Some [], pipedream_api_key = None, custom_headers = None \<rparr>,
       srv_required_env_vars = [''QUERY_API_KEY''],
       srv_optional_env_vars = [''SUPABASE_URL'', ''SUPABASE_ANON_KEY'', ''SUPABASE_SERVICE_ROLE_KEY''] \<rparr>"

definition gmail_server :: McpServerConfig where
  "gmail_server =
     \<lparr> srv_id = ''gmail'', srv_name = utf16 ''Gmail'',
       srv_description = ''Access and manage Gmail'',
       srv_type = remote_pipedream, srv_server_url = Some ''https://remote.mcp.pipedream.net'',
       srv_docker_image = None, srv_app_slug = Some ''gmail'',
       srv_enabled = True, srv_skip_approval = True,
       srv_allowed_tools = utf16 '' send_email , ,list_threads '',
       srv_auth_config =
         \<lparr> github_token = None, github_toolsets = None, github_read_only = None,
           query_api_key = None, supabase_url = None, supabase_anon_key = None,
           supabase_service_role_key = None, pipedream_api_key = Some [],
           custom_headers = Some [''X-App-Slug'' \<mapsto> ''gmail''] \<rparr>,
       srv_required_env_vars = [],
       srv_optional_env_vars = [''PIPEDREAM_API_KEY''] \<rparr>"

definition empty_store :: StoreState where
  "empty_store =
     \<lparr> fileSearchEnabled = False, webSearchEnabled = False, functionsEnabled = False,
       codeInterpreterEnabled = False, vectorStore = None,
       webSearchConfig = \<lparr> ws_user_location = None \<rparr>,
       mcpEnabled = False,
       mcpConfig = \<lparr> cfg_server_label = [], cfg_server_url = [], cfg_allowed_tools = [],
                     cfg_skip_approval = True \<rparr>,
       mcpServers = [] \<rparr>"

definition three_servers :: world where
  "three_servers =
     \<lparr> store = empty_store \<lparr> mcpServers := [github_server, supabase_server, gmail_server] \<rparr>,
       console = [] \<rparr>"

definition legacy_world :: world where
  "legacy_world =
     \<lparr> store = empty_store
         \<lparr> mcpEnabled := True,
           mcpConfig := \<lparr> cfg_server_label = utf16 ''deepwiki'', cfg_server_url = ''https://mcp.deepwiki.com/mcp'',
                          cfg_allowed_tools = utf16 ''ask_question,read_wiki_structure'',
                          cfg_skip_approval = True \<rparr>,
           mcpServers := [gmail_server] \<rparr>,
       console = [] \<rparr>"

text \<open>Two servers whose tool lists are padded with a no-break space, an ideographic
  space, an em space and a zero width no-break space.\<close>

definition padded_world :: world where
  "padded_world =
     \<lparr> store = empty_store
         \<lparr> mcpServers :=
             [gmail_server \<lparr> srv_allowed_tools := 0x00A0 # utf16 ''send_email'' @ [0x3000, comma, 0xFEFF] \<rparr>,
              gmail_server \<lparr> srv_allowed_tools := [0x00A0, 0x2003] \<rparr>] \<rparr>,
       console = [] \<rparr>"

definition blank_name_server :: McpServerConfig where
  "blank_name_server = github_server \<lparr> srv_name := [0x00A0, 0x3000] \<rparr>"

definition file_search_without_store :: world where
  "file_search_without_store = \<lparr> store = empty_store \<lparr> fileSearchEnabled := True \<rparr>, console = [] \<rparr>"

definition file_search_with_store :: world where
  "file_search_with_store =
     \<lparr> store = empty_store \<lparr> fileSearchEnabled := True,
                             vectorStore := Some \<lparr> vs_id = ''vs_123'', vs_name = ''Test Store'' \<rparr> \<rparr>,
       console = [] \<rparr>"

definition rename_gmail :: ServerUpdates where
  "rename_gmail =
     \<lparr> upd_id = None, upd_name = Some (utf16 ''Mail''), upd_description = None, upd_type = None,
       upd_server_url = None, upd_docker_image = None, upd_app_slug = None, upd_enabled = None,
       upd_skip_approval = Some False, upd_allowed_tools = None, upd_auth_config = None,
       upd_required_env_vars = None, upd_optional_env_vars = None \<rparr>"

definition pipedream_requiring_key :: McpServerConfig where
  "pipedream_requiring_key = gmail_server \<lparr> srv_required_env_vars := [''PIPEDREAM_API_KEY''] \<rparr>"

definition list_repos_request :: ApprovalRequest where
  "list_repos_request =
     \<lparr> req_call_id = ''call_1'', req_server_label = ''GitHub Official'',
       req_tool_name = ''list_repos'', req_arguments = JObj [], req_decision = pending \<rparr>"

definition one_pending :: "string \<rightharpoonup> ApprovalRequest" where
  "one_pending = [''call_1'' \<mapsto> list_repos_request]"

definition list_repos_item :: McpApprovalRequestItem where
  "list_repos_item =
     \<lparr> item_id = ''call_1'', item_name = ''list_repos'', item_server_label = ''GitHub Official'' \<rparr>"


section \<open>Properties of the turn endpoints\<close>

lemma pump_length: "length (pump clock i es) = length es"
  by (induction es arbitrary: i) auto

lemma pump_nth: "k < length es \<Longrightarrow> pump clock i es ! k = translate (clock (i + k)) (es ! k)"
proof (induction es arbitrary: i k)
  case Nil
  then show ?case by simp
next
  case (Cons e es)
  then show ?case by (cases k) auto
qed

lemma translate_frame: "\<exists>name payload. translate now e = sseEvent name payload"
  unfolding translate_def by auto

lemma translate_not_Done: "translate now e \<noteq> Done"
  using translate_frame[of now e] by (auto simp: sseEvent_def)

lemma Done_notin_pump: "Done \<notin> set (pump clock i es)"
  by (induction es arbitrary: i) (auto simp: translate_not_Done [symmetric])

lemma translate_unrecognized:
  "\<not> recognized (ev_type e) \<Longrightarrow> \<not> truthy (ev_prop e ''delta'') \<Longrightarrow> \<not> truthy (ev_prop e ''text'')
   \<Longrightarrow> translate now e = sseEvent (ev_type e) (eventData e)"
  unfolding translate_def recognized_def by simp

lemma translate_unrecognized_text:
  "\<not> recognized (ev_type e) \<Longrightarrow> truthy (ev_prop e ''delta'') \<or> truthy (ev_prop e ''text'')
   \<Longrightarrow> translate now e = sseEvent ''response.output_text.delta''
         (JObj [(''delta'', or_else (ev_prop e ''delta'') (or_else (ev_prop e ''text'') (JStr []))),
                (''item_id'', JStr (''msg_'' @ string_of_nat now))])"
  unfolding translate_def recognized_def by simp

lemma start_translating_length:
  "length (start_translating clock run) = Suc (length (yielded run))"
  by (simp add: start_translating_def pump_length split: option.split)

lemma start_translating_nth:
  "k < length (yielded run) \<Longrightarrow>
   start_translating clock run ! k = translate (clock k) (yielded run ! k)"
  by (simp add: start_translating_def nth_append pump_length pump_nth)

lemma start_passthrough_nth:
  "k < length (yielded run) \<Longrightarrow>
   fst (start_passthrough run) ! k =
     Data (JObj [(''event'', JStr (ev_type (yielded run ! k))), (''data'', eventData (yielded run ! k))])"
  by (simp add: start_passthrough_def)

text \<open>
  C1, as the specification states it, fails: an event whose type is none of the
  recognised discriminants but which carries a \<open>delta\<close> is not forwarded under its own
  type with its own payload; it is re-emitted as \<open>response.output_text.delta\<close> with the
  delta text and a generated item id only.
\<close>

theorem dispatch_passthrough_counterexample:
  "\<not> recognized (ev_type refusal_delta) \<and>
   translate 42 refusal_delta =
     Data (JObj [(''event'', JStr ''response.output_text.delta''),
                 (''data'', JObj [(''delta'', JStr ''I cannot''), (''item_id'', JStr ''msg_42'')])]) \<and>
   translate 42 refusal_delta \<noteq>
     Data (JObj [(''event'', JStr (ev_type refusal_delta)),
                 (''data'', JObj ((''type'', JStr (ev_type refusal_delta)) # ev_fields refusal_delta))])"
  by code_simp

text \<open>
  C1 (amended): every upstream event consumed during a turn yields exactly one frame, in
  the position of the event. In the translating route an event whose type matches none
  of the recognised discriminants and which has no truthy \<open>delta\<close> or \<open>text\<close> property
  is forwarded with its own type as event name and the event object unchanged as data;
  one that has a truthy \<open>delta\<close> or \<open>text\<close> is emitted as \<open>response.output_text.delta\<close>
  carrying that text and a generated item id. In the pass-through route every event is
  forwarded with its own type and the event object unchanged.
\<close>

theorem dispatch_total:
  assumes "k < length (yielded run)"
  shows "length (start_translating clock run) = Suc (length (yielded run))
    \<and> (\<exists>name payload. start_translating clock run ! k
          = Data (JObj [(''event'', JStr name), (''data'', payload)]))
    \<and> (\<not> recognized (ev_type (yielded run ! k))
         \<and> \<not> truthy (ev_prop (yielded run ! k) ''delta'')
         \<and> \<not> truthy (ev_prop (yielded run ! k) ''text'')
       \<longrightarrow> start_translating clock run ! k
             = Data (JObj [(''event'', JStr (ev_type (yielded run ! k))),
                           (''data'', JObj ((''type'', JStr (ev_type (yielded run ! k)))
                                            # ev_fields (yielded run ! k)))]))
    \<and> (\<not> recognized (ev_type (yielded run ! k))
         \<and> (truthy (ev_prop (yielded run ! k) ''delta'') \<or> truthy (ev_prop (yielded run ! k) ''text''))
       \<longrightarrow> start_translating clock run ! k
             = Data (JObj [(''event'', JStr ''response.output_text.delta''),
                           (''data'',
                            JObj [(''delta'', or_else (ev_prop (yielded run ! k) ''delta'')
                                               (or_else (ev_prop (yielded run ! k) ''text'') (JStr []))),
                                  (''item_id'', JStr (''msg_'' @ string_of_nat (clock k)))])]))
    \<and> length (fst (start_passthrough run)) = length (yielded run)
    \<and> fst (start_passthrough run) ! k
        = Data (JObj [(''event'', JStr (ev_type (yielded run ! k))),
                      (''data'', JObj ((''type'', JStr (ev_type (yielded run ! k)))
                                       # ev_fields (yielded run ! k)))])"
proof -
  let ?e = "yielded run ! k"
  have nth: "start_translating clock run ! k = translate (clock k) ?e"
    using assms by (rule start_translating_nth)
  have frame: "\<exists>name payload. start_translating clock run ! k
      = Data (JObj [(''event'', JStr name), (''data'', payload)])"
    unfolding nth using translate_frame [of "clock k" ?e] by (simp add: sseEvent_def)
  have plain: "\<not> recognized (ev_type ?e) \<and> \<not> truthy (ev_prop ?e ''delta'') \<and> \<not> truthy (ev_prop ?e ''text'')
      \<longrightarrow> start_translating clock run ! k
          = Data (JObj [(''event'', JStr (ev_type ?e)),
                        (''data'', JObj ((''type'', JStr (ev_type ?e)) # ev_fields ?e))])"
    unfolding nth using translate_unrecognized [of ?e "clock k"]
    by (simp add: sseEvent_def eventData_def)
  have textual: "\<not> recognized (ev_type ?e) \<and> (truthy (ev_prop ?e ''delta'') \<or> truthy (ev_prop ?e ''text''))
      \<longrightarrow> start_translating clock run ! k
           = Data (JObj [(''event'', JStr ''response.output_text.delta''),
                         (''data'',
                          JObj [(''delta'', or_else (ev_prop ?e ''delta'') (or_else (ev_prop ?e ''text'') (JStr []))),
                                (''item_id'', JStr (''msg_'' @ string_of_nat (clock k)))])])"
    unfolding nth using translate_unrecognized_text [of ?e "clock k"]
    by (simp add: sseEvent_def)
  have pass: "fst (start_passthrough run) ! k
      = Data (JObj [(''event'', JStr (ev_type ?e)),
                    (''data'', JObj ((''type'', JStr (ev_type ?e)) # ev_fields ?e))])"
    using start_passthrough_nth [OF assms] by (simp add: eventData_def)
  have plen: "length (fst (start_passthrough run)) = length (yielded run)"
    by (simp add: start_passthrough_def)
  from start_translating_length frame plain textual plen pass show ?thesis by blast
qed

theorem dispatch_total_witness:
  "(0::nat) < length (yielded quiet_run)
   \<and> \<not> recognized (ev_type (yielded quiet_run ! 0))
   \<and> \<not> truthy (ev_prop (yielded quiet_run ! 0) ''delta'')
   \<and> \<not> truthy (ev_prop (yielded quiet_run ! 0) ''text'')
   \<and> start_translating steady_clock quiet_run ! 0
     = Data (JObj [(''event'', JStr ''response.in_progress''),
                   (''data'', JObj [(''type'', JStr ''response.in_progress''), (''sequence_number'', JNum 1)])])
   \<and> fst (start_passthrough quiet_run) ! 0
     = Data (JObj [(''event'', JStr ''response.in_progress''),
                   (''data'', JObj [(''type'', JStr ''response.in_progress''), (''sequence_number'', JNum 1)])])"
  using dispatch_total [of 0 quiet_run steady_clock]
  by (simp add: quiet_run_def keepalive_def recognized_def ev_prop_def)

text \<open>
  C2, as the specification states it, fails: when the upstream iterator throws while
  the translating route is streaming, the last chunk is an \<open>error\<close> frame and no
  sentinel follows; and the pass-through route never sends the sentinel, even when the
  stream ends normally.
\<close>

theorem sentinel_counterexample:
  "POST_translating steady_clock (Streams broken_run)
     = EventStream 200
         [Data (JObj [(''event'', JStr ''response.in_progress''),
                      (''data'', JObj [(''type'', JStr ''response.in_progress''),
                                       (''sequence_number'', JNum 1)])]),
          Data (JObj [(''event'', JStr ''error''),
                      (''data'', JObj [(''error'', JStr ''Streaming failed''),
                                       (''details'', JStr ''socket hang up'')])])]
         Closed
   \<and> last (body (POST_translating steady_clock (Streams broken_run))) \<noteq> Done
   \<and> POST_passthrough (Streams quiet_run)
     = EventStream 200
         [Data (JObj [(''event'', JStr ''response.in_progress''),
                      (''data'', JObj [(''type'', JStr ''response.in_progress''),
                                       (''sequence_number'', JNum 1)])])]
         Closed
   \<and> last (body (POST_passthrough (Streams quiet_run))) \<noteq> Done"
  by (simp add: body_def POST_translating_def POST_passthrough_def start_translating_def
      start_passthrough_def broken_run_def quiet_run_def translate_def keepalive_def
      ev_prop_def sseEvent_def eventData_def steady_clock_def)

text \<open>
  C2 (amended): in the translating route the response ends with the sentinel
  \<^verbatim>\<open>data: [DONE]\<close> after all event frames when the upstream stream ends normally
  (status 200), and after the single \<open>error\<close> frame when the request fails before the
  stream is opened (status 500); in both cases the stream is then closed. The
  pass-through route never sends the sentinel: when the upstream ends normally it
  closes the stream after the last event frame; when the upstream iterator throws it
  puts the stream into the errored state after the frames sent so far; when the request
  fails before the stream is opened it answers with a JSON error document and status
  500.
\<close>

theorem sentinel_last:
  "POST_translating clock (SetupThrows err)
     = EventStream 500
         [Data (JObj [(''event'', JStr ''error''),
                      (''data'', JObj [(''error'', JStr ''Internal server error''),
                                       (''details'', JStr (errorMessage err))])]),
          Done]
         Closed
   \<and> (thrown run = None \<longrightarrow>
        (\<exists>frames. POST_translating clock (Streams run) = EventStream 200 (frames @ [Done]) Closed
           \<and> length frames = length (yielded run) \<and> Done \<notin> set frames))
   \<and> (thrown run = None \<longrightarrow>
        (\<exists>frames. POST_passthrough (Streams run) = EventStream 200 frames Closed
           \<and> length frames = length (yielded run) \<and> Done \<notin> set frames))
   \<and> (\<forall>e. thrown run = Some e \<longrightarrow>
        (\<exists>frames. POST_passthrough (Streams run) = EventStream 200 frames (Errored e)
           \<and> length frames = length (yielded run) \<and> Done \<notin> set frames))
   \<and> POST_passthrough (SetupThrows err) = JsonResponse 500 (JObj [(''error'', JStr (errorMessage err))])
   \<and> Done \<notin> set (body (POST_passthrough env))"
proof -
  have before: "POST_translating clock (SetupThrows err)
     = EventStream 500
         [Data (JObj [(''event'', JStr ''error''),
                      (''data'', JObj [(''error'', JStr ''Internal server error''),
                                       (''details'', JStr (errorMessage err))])]),
          Done]
         Closed"
    by (simp add: POST_translating_def sseEvent_def)
  have success: "thrown run = None \<longrightarrow>
        (\<exists>frames. POST_translating clock (Streams run) = EventStream 200 (frames @ [Done]) Closed
           \<and> length frames = length (yielded run) \<and> Done \<notin> set frames)"
  proof
    assume "thrown run = None"
    then have "POST_translating clock (Streams run)
        = EventStream 200 (pump clock 0 (yielded run) @ [Done]) Closed"
      by (simp add: POST_translating_def start_translating_def)
    with pump_length Done_notin_pump
    show "\<exists>frames. POST_translating clock (Streams run) = EventStream 200 (frames @ [Done]) Closed
           \<and> length frames = length (yielded run) \<and> Done \<notin> set frames"
      by blast
  qed
  have relayed: "Done \<notin> set (fst (start_passthrough run))
      \<and> length (fst (start_passthrough run)) = length (yielded run)"
    by (auto simp: start_passthrough_def)
  have closed: "thrown run = None \<longrightarrow>
        (\<exists>frames. POST_passthrough (Streams run) = EventStream 200 frames Closed
           \<and> length frames = length (yielded run) \<and> Done \<notin> set frames)"
  proof
    assume "thrown run = None"
    then have "POST_passthrough (Streams run) = EventStream 200 (fst (start_passthrough run)) Closed"
      by (simp add: POST_passthrough_def start_passthrough_def)
    with relayed
    show "\<exists>frames. POST_passthrough (Streams run) = EventStream 200 frames Closed
           \<and> length frames = length (yielded run) \<and> Done \<notin> set frames"
      by blast
  qed
  have errored: "\<forall>e. thrown run = Some e \<longrightarrow>
        (\<exists>frames. POST_passthrough (Streams run) = EventStream 200 frames (Errored e)
           \<and> length frames = length (yielded run) \<and> Done \<notin> set frames)"
  proof (intro allI impI)
    fix e
    assume "thrown run = Some e"
    then have "POST_passthrough (Streams run)
        = EventStream 200 (fst (start_passthrough run)) (Errored e)"
      by (simp add: POST_passthrough_def start_passthrough_def)
    with relayed
    show "\<exists>frames. POST_passthrough (Streams run) = EventStream 200 frames (Errored e)
           \<and> length frames = length (yielded run) \<and> Done \<notin> set frames"
      by blast
  qed
  have refused: "POST_passthrough (SetupThrows err)
      = JsonResponse 500 (JObj [(''error'', JStr (errorMessage err))])"
    by (simp add: POST_passthrough_def)
  have pass: "Done \<notin> set (body (POST_passthrough env))"
    by (cases env) (auto simp: body_def POST_passthrough_def start_passthrough_def)
  from before success closed errored refused pass show ?thesis by blast
qed

theorem sentinel_last_witness:
  "thrown quiet_run = None
   \<and> POST_translating steady_clock (Streams quiet_run)
       = EventStream 200
           [Data (JObj [(''event'', JStr ''response.in_progress''),
                        (''data'', JObj [(''type'', JStr ''response.in_progress''),
                                         (''sequence_number'', JNum 1)])]),
            Done]
           Closed
   \<and> thrown broken_run = Some (ErrorObject ''socket hang up'')
   \<and> POST_passthrough (Streams broken_run)
       = EventStream 200
           [Data (JObj [(''event'', JStr ''response.in_progress''),
                        (''data'', JObj [(''type'', JStr ''response.in_progress''),
                                         (''sequence_number'', JNum 1)])])]
           (Errored (ErrorObject ''socket hang up''))"
  using sentinel_last [of steady_clock OtherThrown quiet_run "Streams quiet_run"]
    sentinel_last [of steady_clock OtherThrown broken_run "Streams broken_run"]
  by (simp add: POST_translating_def POST_passthrough_def start_translating_def
      start_passthrough_def quiet_run_def broken_run_def translate_def keepalive_def
      ev_prop_def sseEvent_def eventData_def)

lemma translate_failed:
  "ev_type e = ''response.failed'' \<Longrightarrow>
   translate now e = sseEvent ''error''
     (JObj [(''error'', JStr ''Response failed''),
            (''details'', or_else (error_message e) (JStr ''Unknown error''))])"
  unfolding translate_def by simp

lemma or_else_truthy: "truthy (Some d) \<Longrightarrow> truthy (Some (or_else m d))"
  by (cases m) auto

lemma error_message_cases:
  "error_message e =
     (case map_of (ev_fields e) ''error'' of
        Some (JObj kvs) \<Rightarrow> map_of kvs ''message''
      | _ \<Rightarrow> None)"
  by (simp add: error_message_def ev_prop_def split: option.split json.split)

text \<open>
  C3, as the specification states it, fails: the pass-through route forwards a failure
  event under its own name \<open>response.failed\<close> with the event object unchanged. It emits
  no frame named \<open>error\<close>, and it substitutes no message when the upstream gave none.
\<close>

theorem failure_forwarded_counterexample:
  "map ev_type (yielded two_failures) = [''response.failed'', ''response.failed'']
   \<and> POST_passthrough (Streams two_failures)
     = EventStream 200
         [Data (JObj [(''event'', JStr ''response.failed''),
                      (''data'', JObj [(''type'', JStr ''response.failed''),
                                       (''error'', JObj [(''code'', JStr ''server_error''),
                                                         (''message'', JStr ''The model is overloaded'')])])]),
          Data (JObj [(''event'', JStr ''response.failed''),
                      (''data'', JObj [(''type'', JStr ''response.failed''), (''error'', JNull)])])]
         Closed"
  by (simp add: POST_passthrough_def start_passthrough_def two_failures_def
      failed_with_message_def failed_without_message_def eventData_def)

text \<open>
  C3 (amended): whenever the upstream yields an event of type \<open>response.failed\<close>, the
  translating route emits in its place a frame with event name \<open>error\<close> whose data are
  \<open>error: "Response failed"\<close> and \<open>details\<close>, where \<open>details\<close> are the message of the
  upstream error when the event has an \<open>error\<close> object with a truthy \<open>message\<close> (in
  particular a non-empty string), and the fallback \<open>Unknown error\<close> otherwise; the details
  are never empty. The pass-through route forwards the failure event under its own name
  with the event object unchanged.
\<close>

theorem failure_has_cause:
  assumes "k < length (yielded run)" and "ev_type (yielded run ! k) = ''response.failed''"
  shows "(\<exists>details.
      start_translating clock run ! k
        = Data (JObj [(''event'', JStr ''error''),
                      (''data'', JObj [(''error'', JStr ''Response failed''),
                                       (''details'', details)])])
    \<and> (\<forall>kvs m. map_of (ev_fields (yielded run ! k)) ''error'' = Some (JObj kvs)
                \<and> map_of kvs ''message'' = Some (JStr m) \<and> m \<noteq> []
          \<longrightarrow> details = JStr m)
    \<and> (\<forall>kvs v. map_of (ev_fields (yielded run ! k)) ''error'' = Some (JObj kvs)
                \<and> map_of kvs ''message'' = Some v \<and> truthy (Some v)
          \<longrightarrow> details = v)
    \<and> ((\<forall>kvs. map_of (ev_fields (yielded run ! k)) ''error'' = Some (JObj kvs)
              \<longrightarrow> \<not> truthy (map_of kvs ''message''))
          \<longrightarrow> details = JStr ''Unknown error'')
    \<and> truthy (Some details) \<and> details \<noteq> JStr [])
    \<and> fst (start_passthrough run) ! k
        = Data (JObj [(''event'', JStr ''response.failed''),
                      (''data'', JObj ((''type'', JStr ''response.failed'')
                                       # ev_fields (yielded run ! k)))])"
proof -
  let ?e = "yielded run ! k"
  let ?d = "or_else (error_message ?e) (JStr ''Unknown error'')"
  have "start_translating clock run ! k = translate (clock k) ?e"
    using assms(1) by (rule start_translating_nth)
  then have frame: "start_translating clock run ! k
        = Data (JObj [(''event'', JStr ''error''),
                      (''data'', JObj [(''error'', JStr ''Response failed''), (''details'', ?d)])])"
    using assms(2) by (simp add: translate_failed sseEvent_def)
  have str: "\<forall>kvs m. map_of (ev_fields ?e) ''error'' = Some (JObj kvs)
                \<and> map_of kvs ''message'' = Some (JStr m) \<and> m \<noteq> []
          \<longrightarrow> ?d = JStr m"
    by (simp add: error_message_cases)
  have val: "\<forall>kvs v. map_of (ev_fields ?e) ''error'' = Some (JObj kvs)
                \<and> map_of kvs ''message'' = Some v \<and> truthy (Some v)
          \<longrightarrow> ?d = v"
    by (simp add: error_message_cases)
  have fallback: "(\<forall>kvs. map_of (ev_fields ?e) ''error'' = Some (JObj kvs)
              \<longrightarrow> \<not> truthy (map_of kvs ''message''))
          \<longrightarrow> ?d = JStr ''Unknown error''"
  proof
    assume none: "\<forall>kvs. map_of (ev_fields ?e) ''error'' = Some (JObj kvs)
              \<longrightarrow> \<not> truthy (map_of kvs ''message'')"
    have "\<not> truthy (error_message ?e)"
      unfolding error_message_cases using none
      by (auto split: option.split json.split)
    then show "?d = JStr ''Unknown error''"
      by (cases "error_message ?e") auto
  qed
  have cause: "truthy (Some ?d)"
    by (rule or_else_truthy) simp
  then have nonempty: "?d \<noteq> JStr []"
    by auto
  have pass: "fst (start_passthrough run) ! k
        = Data (JObj [(''event'', JStr ''response.failed''),
                      (''data'', JObj ((''type'', JStr ''response.failed'') # ev_fields ?e))])"
    using start_passthrough_nth [OF assms(1)] assms(2) by (simp add: eventData_def)
  from frame str val fallback cause nonempty pass show ?thesis by blast
qed

theorem failure_has_cause_witness:
  "(1::nat) < length (yielded two_failures)
   \<and> ev_type (yielded two_failures ! 0) = ''response.failed''
   \<and> ev_type (yielded two_failures ! 1) = ''response.failed''
   \<and> start_translating steady_clock two_failures ! 0
     = Data (JObj [(''event'', JStr ''error''),
                   (''data'', JObj [(''error'', JStr ''Response failed''),
                                    (''details'', JStr ''The model is overloaded'')])])
   \<and> start_translating steady_clock two_failures ! 1
     = Data (JObj [(''event'', JStr ''error''),
                   (''data'', JObj [(''error'', JStr ''Response failed''),
                                    (''details'', JStr ''Unknown error'')])])"
  using failure_has_cause [of 0 two_failures steady_clock]
    failure_has_cause [of 1 two_failures steady_clock]
  by (auto simp: two_failures_def failed_with_message_def failed_without_message_def)


section \<open>Properties of the tool catalogue\<close>

lemma getTools_tools:
  "fst (getTools toolsList w) =
     webSearchTools (store w) @ fst (fileSearchTools (store w)) @ codeInterpreterTools (store w)
     @ functionTools toolsList (store w) @ legacyMcpTools (store w) @ serverMcpTools (store w)"
  by (simp add: getTools_def Let_def)

lemma getTools_without_servers:
  "fst (getTools toolsList (w \<lparr> store := (store w) \<lparr> mcpServers := [] \<rparr> \<rparr>)) =
     webSearchTools (store w) @ fst (fileSearchTools (store w)) @ codeInterpreterTools (store w)
     @ functionTools toolsList (store w) @ legacyMcpTools (store w)"
  by (simp add: getTools_tools webSearchTools_def fileSearchTools_def validVectorStoreIds_def
      codeInterpreterTools_def functionTools_def legacyMcpTools_def serverMcpTools_def
      getEnabledServers_def)

lemma getTools_split:
  "fst (getTools toolsList w) =
     fst (getTools toolsList (w \<lparr> store := (store w) \<lparr> mcpServers := [] \<rparr> \<rparr>))
     @ map (\<lambda>server. Mcp (serverMcpTool server)) (getEnabledServers (mcpServers (store w)))"
  unfolding getTools_without_servers by (simp add: getTools_tools serverMcpTools_def)

lemma serverMcpTool_label: "tool_server_label (serverMcpTool s) = srv_name s"
  by (simp add: serverMcpTool_def Let_def split: McpServerType.split)

lemma serverMcpTool_docker:
  "srv_type s = docker \<Longrightarrow>
   tool_docker_image (serverMcpTool s) = srv_docker_image s
   \<and> tool_env (serverMcpTool s) = docker_env (srv_auth_config s)
   \<and> tool_server_url (serverMcpTool s) = None \<and> tool_headers (serverMcpTool s) = None"
  by (simp add: serverMcpTool_def Let_def)

lemma serverMcpTool_query_api:
  "srv_type s = query_api \<Longrightarrow>
   tool_server_url (serverMcpTool s) = srv_server_url s
   \<and> tool_env (serverMcpTool s) = query_api_env (srv_auth_config s)
   \<and> tool_docker_image (serverMcpTool s) = None \<and> tool_headers (serverMcpTool s) = None"
  by (simp add: serverMcpTool_def Let_def)

lemma serverMcpTool_pipedream:
  "srv_type s = remote_pipedream \<Longrightarrow>
   tool_server_url (serverMcpTool s) = srv_server_url s
   \<and> tool_headers (serverMcpTool s) = Some (pipedream_headers s)
   \<and> tool_docker_image (serverMcpTool s) = None \<and> tool_env (serverMcpTool s) = None"
  by (simp add: serverMcpTool_def Let_def)

lemma docker_env_token:
  "docker_env auth \<noteq> None \<longleftrightarrow> present (github_token auth)"
  by (cases "github_token auth") (auto simp: docker_env_def)

lemma docker_env_value:
  "github_token auth = Some token \<Longrightarrow> token \<noteq> [] \<Longrightarrow>
   \<exists>env. docker_env auth = Some env \<and> env ''GITHUB_PERSONAL_ACCESS_TOKEN'' = Some token"
  by (auto simp: docker_env_def entry_if_def map_add_def split: option.splits)

lemma pipedream_headers_slug:
  "pipedream_headers s ''X-App-Slug'' =
     (case custom_headers (srv_auth_config s) of
        None \<Rightarrow> srv_app_slug s
      | Some h \<Rightarrow> (case h ''X-App-Slug'' of None \<Rightarrow> srv_app_slug s | Some v \<Rightarrow> Some v))"
  by (auto simp: pipedream_headers_def map_add_def split: option.splits)

lemma serverMcpTool_describes: "describes s (serverMcpTool s)"
proof (cases "srv_type s")
  case docker
  then show ?thesis
    using serverMcpTool_label [of s] serverMcpTool_docker [of s]
      docker_env_value [of "srv_auth_config s"]
    by (auto simp: describes_def docker_env_def split: option.split)
next
  case query_api
  then show ?thesis
    using serverMcpTool_label [of s] serverMcpTool_query_api [of s]
    by (simp add: describes_def)
next
  case remote_pipedream
  then show ?thesis
    using serverMcpTool_label [of s] serverMcpTool_pipedream [of s] pipedream_headers_slug [of s]
    by (simp add: describes_def)
qed

text \<open>
  C4: the list \<open>getTools\<close> returns is the list it returns without any configured
  server, followed by exactly one descriptor of type \<open>mcp\<close> for each server with
  \<open>enabled = true\<close>, in the order of \<open>mcpServers\<close>; servers that are not enabled
  contribute nothing. The descriptor of a server carries the server's name as label and
  the connection fields of its declared type.
\<close>

theorem server_descriptors:
  "\<exists>ds. fst (getTools toolsList w)
          = fst (getTools toolsList (w \<lparr> store := (store w) \<lparr> mcpServers := [] \<rparr> \<rparr>)) @ ds
     \<and> length ds = length (filter srv_enabled (mcpServers (store w)))
     \<and> (\<forall>i < length ds. \<exists>d.
           ds ! i = Mcp d \<and> tool_type (ds ! i) = ''mcp''
         \<and> describes (filter srv_enabled (mcpServers (store w)) ! i) d)
     \<and> fst (getTools toolsList w)
          = fst (getTools toolsList
                  (w \<lparr> store := (store w) \<lparr> mcpServers := filter srv_enabled (mcpServers (store w)) \<rparr> \<rparr>))"
proof -
  let ?servers = "filter srv_enabled (mcpServers (store w))"
  let ?ds = "map (\<lambda>server. Mcp (serverMcpTool server)) ?servers"
  have enabled_only: "fst (getTools toolsList w)
          = fst (getTools toolsList (w \<lparr> store := (store w) \<lparr> mcpServers := ?servers \<rparr> \<rparr>))"
    by (simp add: getTools_tools webSearchTools_def fileSearchTools_def validVectorStoreIds_def
        codeInterpreterTools_def functionTools_def legacyMcpTools_def serverMcpTools_def
        getEnabledServers_def)
  have parts: "fst (getTools toolsList w)
          = fst (getTools toolsList (w \<lparr> store := (store w) \<lparr> mcpServers := [] \<rparr> \<rparr>)) @ ?ds"
    using getTools_split [of toolsList w] by (simp add: getEnabledServers_def)
  have each: "\<forall>i < length ?ds. \<exists>d. ?ds ! i = Mcp d \<and> tool_type (?ds ! i) = ''mcp''
         \<and> describes (?servers ! i) d"
    by (simp add: serverMcpTool_describes)
  from parts each enabled_only show ?thesis
    by (intro exI [of _ ?ds]) simp
qed

theorem server_descriptors_witness:
  "map tool_type (fst (getTools [] three_servers)) = [''mcp'', ''mcp'']
   \<and> fst (getTools [] (three_servers \<lparr> store := (store three_servers) \<lparr> mcpServers := [] \<rparr> \<rparr>)) = []
   \<and> filter srv_enabled (mcpServers (store three_servers)) = [github_server, gmail_server]
   \<and> (\<exists>d. fst (getTools [] three_servers) ! 0 = Mcp d \<and> describes github_server d
          \<and> tool_docker_image d = Some ''ghcr.io/github/github-mcp-server'')
   \<and> (\<exists>d. fst (getTools [] three_servers) ! 1 = Mcp d \<and> describes gmail_server d
          \<and> tool_server_url d = Some ''https://remote.mcp.pipedream.net'')"
proof -
  have servers: "filter srv_enabled (mcpServers (store three_servers)) = [github_server, gmail_server]"
    by (simp add: three_servers_def empty_store_def github_server_def supabase_server_def
        gmail_server_def)
  have none: "fst (getTools [] (three_servers \<lparr> store := (store three_servers) \<lparr> mcpServers := [] \<rparr> \<rparr>)) = []"
    by (simp add: getTools_tools three_servers_def empty_store_def webSearchTools_def
        fileSearchTools_def codeInterpreterTools_def functionTools_def legacyMcpTools_def
        serverMcpTools_def getEnabledServers_def)
  from server_descriptors [of "[]" three_servers] obtain ds where
    ds: "fst (getTools [] three_servers) = ds" "length ds = 2"
      "\<forall>i < length ds. \<exists>d. ds ! i = Mcp d \<and> tool_type (ds ! i) = ''mcp''
         \<and> describes ([github_server, gmail_server] ! i) d"
    unfolding servers none by auto
  from ds(2) obtain a b where ab: "ds = [a, b]"
    by (cases ds; cases "tl ds") auto
  from ds(3) ab have a: "\<exists>d. a = Mcp d \<and> tool_type a = ''mcp'' \<and> describes github_server d"
    by force
  from ds(3) ab have b: "\<exists>d. b = Mcp d \<and> tool_type b = ''mcp'' \<and> describes gmail_server d"
    by force
  from a b show ?thesis
    unfolding ds(1) ab servers none
    by (auto simp: describes_def github_server_def gmail_server_def)
qed

lemma split_comma_plain: "comma \<notin> set n \<Longrightarrow> split_comma n = [n]"
  by (induction n) auto

lemma split_comma_append:
  "comma \<notin> set n \<Longrightarrow> split_comma (n @ comma # r) = n # split_comma r"
  by (induction n) auto

lemma split_join:
  "ns \<noteq> [] \<Longrightarrow> \<forall>n \<in> set ns. comma \<notin> set n \<Longrightarrow> split_comma (join_comma ns) = ns"
proof (induction ns rule: join_comma.induct)
  case 1
  then show ?case by simp
next
  case (2 n)
  then show ?case by (simp add: split_comma_plain)
next
  case (3 n m ms)
  then show ?case by (simp add: split_comma_append)
qed

lemma trim_clean: "n \<noteq> [] \<Longrightarrow> \<not> is_space (hd n) \<Longrightarrow> \<not> is_space (last n) \<Longrightarrow> trim n = n"
proof -
  assume n: "n \<noteq> []" and h: "\<not> is_space (hd n)" and l: "\<not> is_space (last n)"
  from n h have front: "dropWhile is_space n = n"
    by (cases n) auto
  from n l have "dropWhile is_space (rev n) = rev n"
    by (cases "rev n") (auto simp: last_rev [symmetric] simp del: last_rev)
  with front show ?thesis by (simp add: trim_def)
qed

lemma trim_join_nonempty:
  assumes "ns \<noteq> []" and "\<forall>n \<in> set ns. tool_name n"
  shows "trim (join_comma ns) \<noteq> []"
proof -
  from assms obtain n rest where ns: "ns = n # rest" by (cases ns) auto
  with assms(2) have "tool_name n" by simp
  then obtain c cs where n: "n = c # cs" and c: "\<not> is_space c"
    by (cases n) (auto simp: tool_name_def)
  have "\<exists>r. join_comma ns = c # r"
    unfolding ns n by (cases rest) auto
  then obtain r where j: "join_comma ns = c # r" ..
  have "dropWhile is_space (rev (c # r)) \<noteq> []"
    using c by (simp add: dropWhile_eq_Nil_conv)
  with c show ?thesis
    by (simp add: trim_def j)
qed

lemma allowed_tools_of_names:
  assumes "ns \<noteq> []" and "\<forall>n \<in> set ns. tool_name n"
  shows "allowed_tools_of (join_comma ns) = Some ns"
proof -
  from assms have split: "split_comma (join_comma ns) = ns"
    by (intro split_join) (auto simp: tool_name_def)
  from assms(2) have trims: "map trim ns = ns"
    by (intro map_idI trim_clean) (auto simp: tool_name_def)
  from assms(2) have keep: "filter (\<lambda>t. t \<noteq> []) ns = ns"
    by (auto simp: tool_name_def filter_id_conv)
  from trim_join_nonempty [OF assms] split trims keep show ?thesis
    by (simp add: allowed_tools_of_def split_tools_def)
qed

lemma serverMcpTool_settings:
  "tool_require_approval (serverMcpTool s) = (if srv_skip_approval s then Some ''never'' else None)
   \<and> tool_allowed_tools (serverMcpTool s) = allowed_tools_of (srv_allowed_tools s)"
  by (simp add: serverMcpTool_def Let_def require_approval_of_def split: McpServerType.split)

text \<open>
  C5, as the specification states it, fails: the allowed-tool filter of a descriptor is
  not the configured \<open>allowed_tools\<close> value copied verbatim. The configured value is a
  comma-separated string; the descriptor holds the list of its trimmed, non-empty
  names, and holds no filter at all when the string is blank.
\<close>

theorem allowed_tools_verbatim_counterexample:
  "filter srv_enabled (mcpServers (store three_servers)) = [github_server, gmail_server]
   \<and> srv_allowed_tools github_server = []
   \<and> srv_allowed_tools gmail_server = utf16 '' send_email , ,list_threads ''
   \<and> map allowed_tools_field (fst (getTools [] three_servers))
       = [None, Some [utf16 ''send_email'', utf16 ''list_threads'']]
   \<and> join_comma [utf16 ''send_email'', utf16 ''list_threads''] \<noteq> srv_allowed_tools gmail_server
   \<and> [utf16 ''send_email'', utf16 ''list_threads''] \<noteq> split_comma (srv_allowed_tools gmail_server)"
proof -
  have servers: "filter srv_enabled (mcpServers (store three_servers)) = [github_server, gmail_server]"
    by (simp add: three_servers_def empty_store_def github_server_def supabase_server_def
        gmail_server_def)
  have configured: "srv_allowed_tools github_server = []
      \<and> srv_allowed_tools gmail_server = utf16 '' send_email , ,list_threads ''"
    by (simp add: github_server_def gmail_server_def)
  have emitted: "map allowed_tools_field (fst (getTools [] three_servers))
       = [None, Some [utf16 ''send_email'', utf16 ''list_threads'']]"
    by code_simp
  have differs: "join_comma [utf16 ''send_email'', utf16 ''list_threads''] \<noteq> srv_allowed_tools gmail_server
      \<and> [utf16 ''send_email'', utf16 ''list_threads''] \<noteq> split_comma (srv_allowed_tools gmail_server)"
    by code_simp
  from servers configured emitted differs show ?thesis by blast
qed

lemma legacyMcpTools_settings:
  assumes "mcpEnabled st" "cfg_server_url (mcpConfig st) \<noteq> []" "cfg_server_label (mcpConfig st) \<noteq> []"
  shows "\<exists>d. legacyMcpTools st = [Mcp d]
      \<and> tool_server_label d = cfg_server_label (mcpConfig st)
      \<and> tool_server_url d = Some (cfg_server_url (mcpConfig st))
      \<and> tool_require_approval d = (if cfg_skip_approval (mcpConfig st) then Some ''never'' else None)
      \<and> tool_allowed_tools d = allowed_tools_of (cfg_allowed_tools (mcpConfig st))"
  using assms by (simp add: legacyMcpTools_def require_approval_of_def)

text \<open>
  C5 (amended): for every enabled remote protocol server, and for the legacy single
  server, the descriptor's \<open>require_approval\<close> is \<open>"never"\<close> exactly when the configured
  \<open>skip_approval\<close> flag is set and is absent otherwise; its \<open>allowed_tools\<close> is the list of
  the non-empty, trimmed, comma-separated names of the configured \<open>allowed_tools\<close>
  string, and is absent when that string is blank. When the configured string is a
  comma-separated list of proper tool names, the filter is exactly that list.
\<close>

theorem settings_derived:
  "(\<exists>ds. fst (getTools toolsList w)
          = fst (getTools toolsList (w \<lparr> store := (store w) \<lparr> mcpServers := [] \<rparr> \<rparr>)) @ ds
      \<and> list_all2
          (\<lambda>s t. require_approval_field t = (if srv_skip_approval s then Some ''never'' else None)
               \<and> allowed_tools_field t =
                   (if trim (srv_allowed_tools s) = [] then None
                    else Some (filter (\<lambda>n. n \<noteq> []) (map trim (split_comma (srv_allowed_tools s)))))
               \<and> (\<forall>ns. ns \<noteq> [] \<and> (\<forall>n \<in> set ns. tool_name n) \<and> srv_allowed_tools s = join_comma ns
                    \<longrightarrow> allowed_tools_field t = Some ns))
          (filter srv_enabled (mcpServers (store w))) ds)
   \<and> (mcpEnabled (store w) \<and> cfg_server_url (mcpConfig (store w)) \<noteq> []
        \<and> cfg_server_label (mcpConfig (store w)) \<noteq> [] \<longrightarrow>
       (\<exists>d. Mcp d \<in> set (fst (getTools toolsList w))
          \<and> tool_server_label d = cfg_server_label (mcpConfig (store w))
          \<and> tool_server_url d = Some (cfg_server_url (mcpConfig (store w)))
          \<and> tool_require_approval d
              = (if cfg_skip_approval (mcpConfig (store w)) then Some ''never'' else None)
          \<and> tool_allowed_tools d =
              (if trim (cfg_allowed_tools (mcpConfig (store w))) = [] then None
               else Some (filter (\<lambda>n. n \<noteq> [])
                            (map trim (split_comma (cfg_allowed_tools (mcpConfig (store w)))))))))"
proof -
  let ?servers = "filter srv_enabled (mcpServers (store w))"
  let ?ds = "map (\<lambda>server. Mcp (serverMcpTool server)) ?servers"
  let ?P = "\<lambda>s t. require_approval_field t = (if srv_skip_approval s then Some ''never'' else None)
               \<and> allowed_tools_field t =
                   (if trim (srv_allowed_tools s) = [] then None
                    else Some (filter (\<lambda>n. n \<noteq> []) (map trim (split_comma (srv_allowed_tools s)))))
               \<and> (\<forall>ns. ns \<noteq> [] \<and> (\<forall>n \<in> set ns. tool_name n) \<and> srv_allowed_tools s = join_comma ns
                    \<longrightarrow> allowed_tools_field t = Some ns)"
  have parts: "fst (getTools toolsList w)
          = fst (getTools toolsList (w \<lparr> store := (store w) \<lparr> mcpServers := [] \<rparr> \<rparr>)) @ ?ds"
    using getTools_split [of toolsList w] by (simp add: getEnabledServers_def)
  have one: "?P s (Mcp (serverMcpTool s))" for s
  proof -
    have approval: "require_approval_field (Mcp (serverMcpTool s))
        = (if srv_skip_approval s then Some ''never'' else None)"
      using serverMcpTool_settings [of s] by simp
    have allowed: "allowed_tools_field (Mcp (serverMcpTool s)) = allowed_tools_of (srv_allowed_tools s)"
      using serverMcpTool_settings [of s] by simp
    have parsed: "allowed_tools_of (srv_allowed_tools s) =
        (if trim (srv_allowed_tools s) = [] then None
         else Some (filter (\<lambda>n. n \<noteq> []) (map trim (split_comma (srv_allowed_tools s)))))"
      by (simp add: allowed_tools_of_def split_tools_def)
    have names: "\<forall>ns. ns \<noteq> [] \<and> (\<forall>n \<in> set ns. tool_name n) \<and> srv_allowed_tools s = join_comma ns
        \<longrightarrow> allowed_tools_field (Mcp (serverMcpTool s)) = Some ns"
      unfolding allowed using allowed_tools_of_names by simp
    from approval allowed parsed names show ?thesis by simp
  qed
  then have "\<forall>s \<in> set ?servers. ?P s (Mcp (serverMcpTool s))"
    by blast
  then have "list_all2 ?P ?servers ?ds"
    by (simp only: list_all2_map2 list_all2_same)
  with parts have servers:
    "\<exists>ds. fst (getTools toolsList w)
          = fst (getTools toolsList (w \<lparr> store := (store w) \<lparr> mcpServers := [] \<rparr> \<rparr>)) @ ds
      \<and> list_all2 ?P ?servers ds"
    by blast
  have legacy: "mcpEnabled (store w) \<and> cfg_server_url (mcpConfig (store w)) \<noteq> []
        \<and> cfg_server_label (mcpConfig (store w)) \<noteq> [] \<longrightarrow>
       (\<exists>d. Mcp d \<in> set (fst (getTools toolsList w))
          \<and> tool_server_label d = cfg_server_label (mcpConfig (store w))
          \<and> tool_server_url d = Some (cfg_server_url (mcpConfig (store w)))
          \<and> tool_require_approval d
              = (if cfg_skip_approval (mcpConfig (store w)) then Some ''never'' else None)
          \<and> tool_allowed_tools d =
              (if trim (cfg_allowed_tools (mcpConfig (store w))) = [] then None
               else Some (filter (\<lambda>n. n \<noteq> [])
                            (map trim (split_comma (cfg_allowed_tools (mcpConfig (store w))))))))"
  proof
    assume "mcpEnabled (store w) \<and> cfg_server_url (mcpConfig (store w)) \<noteq> []
        \<and> cfg_server_label (mcpConfig (store w)) \<noteq> []"
    then obtain d where d: "legacyMcpTools (store w) = [Mcp d]"
      "tool_server_label d = cfg_server_label (mcpConfig (store w))"
      "tool_server_url d = Some (cfg_server_url (mcpConfig (store w)))"
      "tool_require_approval d = (if cfg_skip_approval (mcpConfig (store w)) then Some ''never'' else None)"
      "tool_allowed_tools d = allowed_tools_of (cfg_allowed_tools (mcpConfig (store w)))"
      using legacyMcpTools_settings [of "store w"] by blast
    from d(1) have "Mcp d \<in> set (fst (getTools toolsList w))"
      by (simp add: getTools_tools)
    with d(2-5) show "\<exists>d. Mcp d \<in> set (fst (getTools toolsList w))
          \<and> tool_server_label d = cfg_server_label (mcpConfig (store w))
          \<and> tool_server_url d = Some (cfg_server_url (mcpConfig (store w)))
          \<and> tool_require_approval d
              = (if cfg_skip_approval (mcpConfig (store w)) then Some ''never'' else None)
          \<and> tool_allowed_tools d =
              (if trim (cfg_allowed_tools (mcpConfig (store w))) = [] then None
               else Some (filter (\<lambda>n. n \<noteq> [])
                            (map trim (split_comma (cfg_allowed_tools (mcpConfig (store w)))))))"
      by (auto simp: allowed_tools_of_def split_tools_def)
  qed
  from servers legacy show ?thesis by blast
qed

theorem settings_derived_witness:
  "mcpEnabled (store legacy_world) \<and> cfg_server_url (mcpConfig (store legacy_world)) \<noteq> []
   \<and> cfg_server_label (mcpConfig (store legacy_world)) \<noteq> []
   \<and> map require_approval_field (fst (getTools [] legacy_world)) = [Some ''never'', Some ''never'']
   \<and> map allowed_tools_field (fst (getTools [] legacy_world))
       = [Some [utf16 ''ask_question'', utf16 ''read_wiki_structure''], Some [utf16 ''send_email'', utf16 ''list_threads'']]
   \<and> map allowed_tools_field (fst (getTools [] padded_world)) = [Some [utf16 ''send_email''], None]"
proof -
  have active: "mcpEnabled (store legacy_world) \<and> cfg_server_url (mcpConfig (store legacy_world)) \<noteq> []
      \<and> cfg_server_label (mcpConfig (store legacy_world)) \<noteq> []"
    by (simp add: legacy_world_def empty_store_def utf16_def)
  have emitted: "map require_approval_field (fst (getTools [] legacy_world)) = [Some ''never'', Some ''never'']
      \<and> map allowed_tools_field (fst (getTools [] legacy_world))
          = [Some [utf16 ''ask_question'', utf16 ''read_wiki_structure''], Some [utf16 ''send_email'', utf16 ''list_threads'']]
      \<and> map allowed_tools_field (fst (getTools [] padded_world)) = [Some [utf16 ''send_email''], None]"
    by code_simp
  from settings_derived [of "[]" legacy_world] settings_derived [of "[]" padded_world]
    active emitted
  show ?thesis by blast
qed

lemma only_file_search_part:
  "filter is_file_search (fst (getTools toolsList w)) = filter is_file_search (fst (fileSearchTools (store w)))"
proof -
  have web: "filter is_file_search (webSearchTools st) = []" for st
    by (simp add: webSearchTools_def is_file_search_def)
  have code: "filter is_file_search (codeInterpreterTools st) = []" for st
    by (simp add: codeInterpreterTools_def is_file_search_def)
  have funs: "filter is_file_search (functionTools toolsList st) = []" for st
    by (auto simp: functionTools_def is_file_search_def filter_empty_conv)
  have legacy: "filter is_file_search (legacyMcpTools st) = []" for st
    by (simp add: legacyMcpTools_def is_file_search_def)
  have servers: "filter is_file_search (serverMcpTools st) = []" for st
    by (auto simp: serverMcpTools_def is_file_search_def filter_empty_conv)
  show ?thesis
    by (simp add: getTools_tools web code funs legacy servers)
qed

lemma getTools_console:
  "console (snd (getTools toolsList w)) =
     console w @ snd (fileSearchTools (store w))
     @ [ConsoleLog [Text ''Generated tools:'', Tools (fst (getTools toolsList w))],
        ConsoleLog [Text ''Total tools count:'', Count (length (fst (getTools toolsList w)))]]"
  by (simp add: getTools_def Let_def)

text \<open>
  C6: when the file-search flag is set, the list \<open>getTools\<close> returns contains a
  descriptor of type \<open>file_search\<close> if and only if the store has a vector store with a
  non-empty id; then it is the one descriptor \<open>file_search\<close> with exactly that id.
  Otherwise the list has no descriptor of type \<open>file_search\<close> at all, and a warning is
  written to the console.
\<close>

theorem file_search_iff:
  assumes "fileSearchEnabled (store w)"
  shows "((\<exists>t \<in> set (fst (getTools toolsList w)). tool_type t = ''file_search'')
            \<longleftrightarrow> (\<exists>vs. vectorStore (store w) = Some vs \<and> vs_id vs \<noteq> []))
    \<and> (\<forall>vs. vectorStore (store w) = Some vs \<and> vs_id vs \<noteq> [] \<longrightarrow>
          filter is_file_search (fst (getTools toolsList w)) = [File_search [vs_id vs]])
    \<and> (\<not> (\<exists>vs. vectorStore (store w) = Some vs \<and> vs_id vs \<noteq> []) \<longrightarrow>
          filter is_file_search (fst (getTools toolsList w)) = []
        \<and> console (snd (getTools toolsList w)) =
            console w
            @ [ConsoleWarn [Text
                ''File search enabled but no valid vector store IDs found. Skipping file search tool.''],
               ConsoleLog [Text ''Generated tools:'', Tools (fst (getTools toolsList w))],
               ConsoleLog [Text ''Total tools count:'', Count (length (fst (getTools toolsList w)))]])"
proof -
  let ?tools = "fst (getTools toolsList w)"
  have member: "(\<exists>t \<in> set ?tools. tool_type t = ''file_search'') \<longleftrightarrow> filter is_file_search ?tools \<noteq> []"
    by (auto simp: filter_empty_conv is_file_search_def)
  have with_id: "filter is_file_search ?tools = [File_search [vs_id vs]]"
    if "vectorStore (store w) = Some vs" "vs_id vs \<noteq> []" for vs
    using assms that
    by (simp add: only_file_search_part fileSearchTools_def validVectorStoreIds_def is_file_search_def)
  have without_id: "filter is_file_search ?tools = []
      \<and> snd (fileSearchTools (store w)) = [ConsoleWarn [Text
                ''File search enabled but no valid vector store IDs found. Skipping file search tool.'']]"
    if "\<not> (\<exists>vs. vectorStore (store w) = Some vs \<and> vs_id vs \<noteq> [])"
    using assms that
    by (cases "vectorStore (store w)")
      (auto simp: only_file_search_part fileSearchTools_def validVectorStoreIds_def)
  have iff: "(\<exists>t \<in> set ?tools. tool_type t = ''file_search'')
            \<longleftrightarrow> (\<exists>vs. vectorStore (store w) = Some vs \<and> vs_id vs \<noteq> [])"
    unfolding member using with_id without_id by fastforce
  have logged: "\<not> (\<exists>vs. vectorStore (store w) = Some vs \<and> vs_id vs \<noteq> []) \<longrightarrow>
          filter is_file_search ?tools = []
        \<and> console (snd (getTools toolsList w)) =
            console w
            @ [ConsoleWarn [Text
                ''File search enabled but no valid vector store IDs found. Skipping file search tool.''],
               ConsoleLog [Text ''Generated tools:'', Tools ?tools],
               ConsoleLog [Text ''Total tools count:'', Count (length ?tools)]]"
    using without_id by (simp add: getTools_console)
  from iff with_id logged show ?thesis by blast
qed

theorem file_search_iff_witness:
  "fileSearchEnabled (store file_search_without_store)
   \<and> fst (getTools [] file_search_without_store) = []
   \<and> console (snd (getTools [] file_search_without_store)) =
       [ConsoleWarn [Text
          ''File search enabled but no valid vector store IDs found. Skipping file search tool.''],
        ConsoleLog [Text ''Generated tools:'', Tools []],
        ConsoleLog [Text ''Total tools count:'', Count 0]]
   \<and> fileSearchEnabled (store file_search_with_store)
   \<and> fst (getTools [] file_search_with_store) = [File_search [''vs_123'']]"
proof -
  have enabled: "fileSearchEnabled (store file_search_without_store)
      \<and> fileSearchEnabled (store file_search_with_store)"
    by (simp add: file_search_without_store_def file_search_with_store_def empty_store_def)
  have emitted: "fst (getTools [] file_search_without_store) = []
      \<and> fst (getTools [] file_search_with_store) = [File_search [''vs_123'']]"
    by (simp add: getTools_tools file_search_without_store_def file_search_with_store_def
        empty_store_def webSearchTools_def fileSearchTools_def validVectorStoreIds_def
        codeInterpreterTools_def functionTools_def legacyMcpTools_def serverMcpTools_def
        getEnabledServers_def)
  have logged: "console (snd (getTools [] file_search_without_store)) =
       [ConsoleWarn [Text
          ''File search enabled but no valid vector store IDs found. Skipping file search tool.''],
        ConsoleLog [Text ''Generated tools:'', Tools []],
        ConsoleLog [Text ''Total tools count:'', Count 0]]"
    using file_search_iff [of file_search_without_store "[]"] enabled emitted
    by (simp add: file_search_without_store_def empty_store_def)
  from file_search_iff [of file_search_with_store "[]"] enabled emitted logged
  show ?thesis by blast
qed

text \<open>
  C9, as the specification states it, fails: \<open>getTools\<close> is not a pure transformation.
  Every call writes to the console, so the world after a call differs from the world
  before it.
\<close>

theorem getTools_console_counterexample:
  "console three_servers = []
   \<and> console (snd (getTools [] three_servers))
       = [ConsoleLog [Text ''Generated tools:'', Tools (fst (getTools [] three_servers))],
          ConsoleLog [Text ''Total tools count:'', Count 2]]
   \<and> snd (getTools [] three_servers) \<noteq> three_servers"
proof -
  have before: "console three_servers = []"
    by (simp add: three_servers_def)
  have count: "length (fst (getTools [] three_servers)) = 2"
    by (simp add: getTools_tools three_servers_def empty_store_def webSearchTools_def
        fileSearchTools_def codeInterpreterTools_def functionTools_def legacyMcpTools_def
        serverMcpTools_def getEnabledServers_def github_server_def supabase_server_def
        gmail_server_def)
  have quiet: "snd (fileSearchTools (store three_servers)) = []"
    by (simp add: fileSearchTools_def three_servers_def empty_store_def)
  have after: "console (snd (getTools [] three_servers))
       = [ConsoleLog [Text ''Generated tools:'', Tools (fst (getTools [] three_servers))],
          ConsoleLog [Text ''Total tools count:'', Count 2]]"
    by (simp add: getTools_console before count quiet)
  from before after have "console (snd (getTools [] three_servers)) \<noteq> console three_servers"
    by simp
  then have "snd (getTools [] three_servers) \<noteq> three_servers"
    by auto
  with before after show ?thesis by blast
qed

text \<open>
  C9 (amended): \<open>getTools\<close> leaves the configuration store as it found it, and two calls
  in equal configuration states return equal tool lists, whatever the console held
  before. It is not free of side effects: every call appends to the console, first the
  file-search diagnostic when the file-search flag is set, then the list of generated
  tools and their number.
\<close>

theorem getTools_pure:
  "store (snd (getTools toolsList w)) = store w
   \<and> (store w1 = store w2 \<longrightarrow> fst (getTools toolsList w1) = fst (getTools toolsList w2))
   \<and> (\<exists>diagnostic.
         console (snd (getTools toolsList w))
           = console w @ diagnostic
             @ [ConsoleLog [Text ''Generated tools:'', Tools (fst (getTools toolsList w))],
                ConsoleLog [Text ''Total tools count:'', Count (length (fst (getTools toolsList w)))]]
       \<and> length diagnostic = (if fileSearchEnabled (store w) then 1 else 0))
   \<and> snd (getTools toolsList w) \<noteq> w"
proof -
  have kept: "store (snd (getTools toolsList w)) = store w"
    by (simp add: getTools_def Let_def)
  have same: "store w1 = store w2 \<longrightarrow> fst (getTools toolsList w1) = fst (getTools toolsList w2)"
    by (simp add: getTools_def Let_def)
  have one: "length (snd (fileSearchTools (store w))) = (if fileSearchEnabled (store w) then 1 else 0)"
    by (simp add: fileSearchTools_def)
  with getTools_console [of toolsList w]
  have written: "\<exists>diagnostic.
         console (snd (getTools toolsList w))
           = console w @ diagnostic
             @ [ConsoleLog [Text ''Generated tools:'', Tools (fst (getTools toolsList w))],
                ConsoleLog [Text ''Total tools count:'', Count (length (fst (getTools toolsList w)))]]
       \<and> length diagnostic = (if fileSearchEnabled (store w) then 1 else 0)"
    by blast
  then have "length (console (snd (getTools toolsList w))) \<noteq> length (console w)"
    by auto
  then have changed: "snd (getTools toolsList w) \<noteq> w"
    by auto
  from kept same written changed show ?thesis by blast
qed

theorem getTools_pure_witness:
  "store three_servers = store (three_servers \<lparr> console := [ConsoleLog [Text ''earlier output'']] \<rparr>)
   \<and> fst (getTools [] three_servers)
       = fst (getTools [] (three_servers \<lparr> console := [ConsoleLog [Text ''earlier output'']] \<rparr>))
   \<and> store (snd (getTools [] three_servers)) = store three_servers
   \<and> snd (getTools [] three_servers) \<noteq> three_servers"
  using getTools_pure [of "[]" three_servers three_servers
      "three_servers \<lparr> console := [ConsoleLog [Text ''earlier output'']] \<rparr>"]
  by simp

section \<open>Properties of the store and of validation\<close>

text \<open>
  C10: \<open>updateMcpServer\<close> and \<open>toggleMcpServer\<close> keep the length and the order of
  \<open>mcpServers\<close>: every entry whose id differs from \<open>serverId\<close> stays as it is, in its
  place, and an entry with that id is replaced in its place by its merge with the updates,
  or by itself with \<open>enabled\<close> negated. Nothing else in the store changes, and toggling
  twice with the same id restores the store.
\<close>

theorem server_list_frame:
  "length (mcpServers (updateMcpServer serverId updates state)) = length (mcpServers state)
   \<and> length (mcpServers (toggleMcpServer serverId state)) = length (mcpServers state)
   \<and> (\<forall>i < length (mcpServers state).
         (srv_id (mcpServers state ! i) \<noteq> serverId \<longrightarrow>
            mcpServers (updateMcpServer serverId updates state) ! i = mcpServers state ! i
          \<and> mcpServers (toggleMcpServer serverId state) ! i = mcpServers state ! i)
       \<and> (srv_id (mcpServers state ! i) = serverId \<longrightarrow>
            mcpServers (updateMcpServer serverId updates state) ! i
              = spread (mcpServers state ! i) updates
          \<and> mcpServers (toggleMcpServer serverId state) ! i
              = (mcpServers state ! i) \<lparr> srv_enabled := \<not> srv_enabled (mcpServers state ! i) \<rparr>))
   \<and> updateMcpServer serverId updates state
       = state \<lparr> mcpServers := mcpServers (updateMcpServer serverId updates state) \<rparr>
   \<and> toggleMcpServer serverId state
       = state \<lparr> mcpServers := mcpServers (toggleMcpServer serverId state) \<rparr>
   \<and> toggleMcpServer serverId (toggleMcpServer serverId state) = state"
proof -
  have lengths: "length (mcpServers (updateMcpServer serverId updates state)) = length (mcpServers state)
      \<and> length (mcpServers (toggleMcpServer serverId state)) = length (mcpServers state)"
    by (simp add: updateMcpServer_def toggleMcpServer_def)
  have entries: "\<forall>i < length (mcpServers state).
         (srv_id (mcpServers state ! i) \<noteq> serverId \<longrightarrow>
            mcpServers (updateMcpServer serverId updates state) ! i = mcpServers state ! i
          \<and> mcpServers (toggleMcpServer serverId state) ! i = mcpServers state ! i)
       \<and> (srv_id (mcpServers state ! i) = serverId \<longrightarrow>
            mcpServers (updateMcpServer serverId updates state) ! i
              = spread (mcpServers state ! i) updates
          \<and> mcpServers (toggleMcpServer serverId state) ! i
              = (mcpServers state ! i) \<lparr> srv_enabled := \<not> srv_enabled (mcpServers state ! i) \<rparr>)"
    by (simp add: updateMcpServer_def toggleMcpServer_def)
  have rest: "updateMcpServer serverId updates state
       = state \<lparr> mcpServers := mcpServers (updateMcpServer serverId updates state) \<rparr>
     \<and> toggleMcpServer serverId state
       = state \<lparr> mcpServers := mcpServers (toggleMcpServer serverId state) \<rparr>"
    by (simp add: updateMcpServer_def toggleMcpServer_def)
  let ?flip = "\<lambda>server. if srv_id server = serverId
                         then server \<lparr> srv_enabled := \<not> srv_enabled server \<rparr> else server"
  have twice: "map ?flip (map ?flip servers) = servers" for servers
    by (induction servers) auto
  have "toggleMcpServer serverId (toggleMcpServer serverId state)
      = state \<lparr> mcpServers := map ?flip (map ?flip (mcpServers state)) \<rparr>"
    by (simp add: toggleMcpServer_def del: map_map)
  also have "\<dots> = state"
    by (subst twice) simp
  finally have involution: "toggleMcpServer serverId (toggleMcpServer serverId state) = state" .
  from lengths entries rest involution show ?thesis by blast
qed

theorem server_list_frame_witness:
  "(2::nat) < length (mcpServers (store three_servers))
   \<and> srv_id (mcpServers (store three_servers) ! 2) = ''gmail''
   \<and> srv_id (mcpServers (store three_servers) ! 0) \<noteq> ''gmail''
   \<and> mcpServers (updateMcpServer ''gmail'' rename_gmail (store three_servers))
       = [github_server, supabase_server,
          gmail_server \<lparr> srv_name := utf16 ''Mail'', srv_skip_approval := False \<rparr>]
   \<and> mcpServers (toggleMcpServer ''gmail'' (store three_servers))
       = [github_server, supabase_server, gmail_server \<lparr> srv_enabled := False \<rparr>]
   \<and> toggleMcpServer ''gmail'' (toggleMcpServer ''gmail'' (store three_servers)) = store three_servers"
  using server_list_frame [of "''gmail''" rename_gmail "store three_servers"]
  by (simp add: three_servers_def empty_store_def updateMcpServer_def toggleMcpServer_def
      github_server_def supabase_server_def gmail_server_def rename_gmail_def spread_def)

text \<open>
  C8, as the specification states it, fails: a server can list a required environment
  variable that has no corresponding \<open>auth_config\<close> value and still validate without
  errors. Only two pairs of server type and variable are checked.
\<close>

theorem required_env_var_counterexample:
  "srv_type pipedream_requiring_key = remote_pipedream
   \<and> srv_required_env_vars pipedream_requiring_key = [''PIPEDREAM_API_KEY'']
   \<and> pipedream_api_key (srv_auth_config pipedream_requiring_key) = Some []
   \<and> \<not> has_auth_value (srv_auth_config pipedream_requiring_key) ''PIPEDREAM_API_KEY''
   \<and> spec_has_errors pipedream_requiring_key
   \<and> errors (validateServerConfig pipedream_requiring_key) = []
   \<and> valid (validateServerConfig pipedream_requiring_key)"
  by code_simp

lemma env_var_errors_nonempty:
  "concat (map (env_var_errors server) vars) \<noteq> [] \<longleftrightarrow>
     (srv_type server = docker \<and> ''GITHUB_PERSONAL_ACCESS_TOKEN'' \<in> set vars
        \<and> \<not> present (github_token (srv_auth_config server)))
   \<or> (srv_type server = query_api \<and> ''QUERY_API_KEY'' \<in> set vars
        \<and> \<not> present (query_api_key (srv_auth_config server)))"
  by (induction vars) (auto simp: env_var_errors_def)

text \<open>
  C8 (amended): \<open>validateServerConfig\<close> returns \<open>valid = true\<close> exactly when its list
  of errors is empty, and the list is non-empty precisely when the name is blank after
  trimming; or the type is \<open>docker\<close> and there is no docker image; or the type is
  \<open>query_api\<close> and there is no server URL; or the type is \<open>remote_pipedream\<close> and the
  server URL or the app slug is missing; or the type is \<open>docker\<close>,
  \<open>GITHUB_PERSONAL_ACCESS_TOKEN\<close> is listed as required and no GitHub token is set; or
  the type is \<open>query_api\<close>, \<open>QUERY_API_KEY\<close> is listed as required and no query API key
  is set. The function is total: it returns its findings and never throws.
\<close>

theorem validation_errors:
  "valid (validateServerConfig server) = (errors (validateServerConfig server) = [])
   \<and> (errors (validateServerConfig server) \<noteq> [] \<longleftrightarrow>
         trim (srv_name server) = []
       \<or> (srv_type server = docker \<and> \<not> present (srv_docker_image server))
       \<or> (srv_type server = query_api \<and> \<not> present (srv_server_url server))
       \<or> (srv_type server = remote_pipedream
            \<and> (\<not> present (srv_server_url server) \<or> \<not> present (srv_app_slug server)))
       \<or> (srv_type server = docker
            \<and> ''GITHUB_PERSONAL_ACCESS_TOKEN'' \<in> set (srv_required_env_vars server)
            \<and> \<not> present (github_token (srv_auth_config server)))
       \<or> (srv_type server = query_api
            \<and> ''QUERY_API_KEY'' \<in> set (srv_required_env_vars server)
            \<and> \<not> present (query_api_key (srv_auth_config server))))"
proof -
  have flag: "valid (validateServerConfig server) = (errors (validateServerConfig server) = [])"
    by (simp add: validateServerConfig_def Let_def)
  have cases: "errors (validateServerConfig server) \<noteq> [] \<longleftrightarrow>
         trim (srv_name server) = []
       \<or> (srv_type server = docker \<and> \<not> present (srv_docker_image server))
       \<or> (srv_type server = query_api \<and> \<not> present (srv_server_url server))
       \<or> (srv_type server = remote_pipedream
            \<and> (\<not> present (srv_server_url server) \<or> \<not> present (srv_app_slug server)))
       \<or> concat (map (env_var_errors server) (srv_required_env_vars server)) \<noteq> []"
    by (auto simp: validateServerConfig_def Let_def)
  from flag cases show ?thesis
    unfolding env_var_errors_nonempty by blast
qed

theorem validation_errors_witness:
  "errors (validateServerConfig supabase_server) = [''QUERY_API_KEY is required for Supabase server'']
   \<and> \<not> valid (validateServerConfig supabase_server)
   \<and> srv_type supabase_server = query_api
   \<and> ''QUERY_API_KEY'' \<in> set (srv_required_env_vars supabase_server)
   \<and> \<not> present (query_api_key (srv_auth_config supabase_server))
   \<and> errors (validateServerConfig github_server) = []
   \<and> valid (validateServerConfig github_server)
   \<and> trim (srv_name blank_name_server) = []
   \<and> errors (validateServerConfig blank_name_server) = [''Server name is required'']
   \<and> \<not> valid (validateServerConfig blank_name_server)"
proof -
  have computed: "errors (validateServerConfig supabase_server) = [''QUERY_API_KEY is required for Supabase server'']
      \<and> srv_type supabase_server = query_api
      \<and> ''QUERY_API_KEY'' \<in> set (srv_required_env_vars supabase_server)
      \<and> \<not> present (query_api_key (srv_auth_config supabase_server))
      \<and> errors (validateServerConfig github_server) = []
      \<and> trim (srv_name blank_name_server) = []
      \<and> errors (validateServerConfig blank_name_server) = [''Server name is required'']"
    by code_simp
  from validation_errors [of supabase_server] validation_errors [of github_server]
    validation_errors [of blank_name_server] computed
  show ?thesis by simp
qed

section \<open>Properties of approval resolution\<close>

text \<open>
  C7: resolving the same approval request twice makes the transition from pending to
  resolved, and the dispatch that follows from it, once: the second call leaves the gate
  as it is and dispatches nothing. In the approval component the first click disables
  both buttons, so a second click calls \<open>onRespond\<close> no more, and the calls of two clicks
  lead to at most one dispatch.
\<close>

theorem approval_idempotent:
  "fst (resolveApproval callId b (fst (resolveApproval callId a gate)))
     = fst (resolveApproval callId a gate)
   \<and> \<not> is_dispatch (snd (resolveApproval callId b (fst (resolveApproval callId a gate))))
   \<and> (\<forall>request. gate callId = Some request \<and> req_decision request = pending \<longrightarrow>
         snd (resolveApproval callId a gate)
           = Dispatch (request \<lparr> req_decision := (if a then approved else declined) \<rparr>)
       \<and> fst (resolveApproval callId a gate) callId
           = Some (request \<lparr> req_decision := (if a then approved else declined) \<rparr>)
       \<and> snd (resolveApproval callId b (fst (resolveApproval callId a gate))) = DuplicateWarning)
   \<and> (\<not> disabled c \<longrightarrow>
         snd (click item a c) = [onRespond a (item_id item)]
       \<and> disabled (fst (click item a c))
       \<and> click item b (fst (click item a c)) = (fst (click item a c), [])
       \<and> length (filter is_dispatch
            (snd (deliver (snd (click item a c) @ snd (click item b (fst (click item a c)))) gate)))
           \<le> 1)"
proof -
  have second: "fst (resolveApproval callId b (fst (resolveApproval callId a gate)))
       = fst (resolveApproval callId a gate)
     \<and> \<not> is_dispatch (snd (resolveApproval callId b (fst (resolveApproval callId a gate))))"
    by (cases "gate callId") (auto simp: resolveApproval_def Let_def)
  have first: "\<forall>request. gate callId = Some request \<and> req_decision request = pending \<longrightarrow>
         snd (resolveApproval callId a gate)
           = Dispatch (request \<lparr> req_decision := (if a then approved else declined) \<rparr>)
       \<and> fst (resolveApproval callId a gate) callId
           = Some (request \<lparr> req_decision := (if a then approved else declined) \<rparr>)
       \<and> snd (resolveApproval callId b (fst (resolveApproval callId a gate))) = DuplicateWarning"
    by (auto simp: resolveApproval_def Let_def)
  have buttons: "\<not> disabled c \<longrightarrow>
         snd (click item a c) = [onRespond a (item_id item)]
       \<and> disabled (fst (click item a c))
       \<and> click item b (fst (click item a c)) = (fst (click item a c), [])
       \<and> length (filter is_dispatch
            (snd (deliver (snd (click item a c) @ snd (click item b (fst (click item a c)))) gate)))
           \<le> 1"
    by (auto simp: click_def handle_def split: prod.split)
  from second first buttons show ?thesis by blast
qed

theorem approval_idempotent_witness:
  "one_pending ''call_1'' = Some list_repos_request
   \<and> req_decision list_repos_request = pending
   \<and> snd (resolveApproval ''call_1'' True one_pending)
       = Dispatch (list_repos_request \<lparr> req_decision := approved \<rparr>)
   \<and> snd (resolveApproval ''call_1'' True (fst (resolveApproval ''call_1'' True one_pending)))
       = DuplicateWarning
   \<and> \<not> disabled \<lparr> disabled = False \<rparr>
   \<and> snd (click list_repos_item True \<lparr> disabled = False \<rparr>) = [onRespond True ''call_1'']
   \<and> snd (click list_repos_item True (fst (click list_repos_item True \<lparr> disabled = False \<rparr>))) = []"
  using approval_idempotent [of "''call_1''" True True one_pending "\<lparr> disabled = False \<rparr>" list_repos_item]
  by (simp add: one_pending_def list_repos_request_def list_repos_item_def)

end
